theory Spec2Isabelle
  imports Complex_Main "HOL-Library.Word"
begin

section \<open>The download-and-commit pipeline of lambda/youtube-downloader.ts\<close>

text \<open>
  The downloader Lambda is modelled as a state-passing program over a \<open>world\<close>: the clock,
  the local file system under \<open>/tmp\<close>, the DynamoDB table and the trace of everything the
  program printed or asked of an external service, in the order it happened. What the outside
  answers (the extraction subprocess, S3, DynamoDB, CloudWatch, other executions writing to the
  table) is an \<open>env\<close> of oracle functions, each of which may look at the whole world. Every
  \<open>throw\<close> and rejected promise is a value \<open>Inl err\<close>.

  Numbers are exact rationals instead of doubles, and the timestamps that \<open>log\<close> and the
  table item render with \<open>toISOString\<close> are kept as the millisecond clock value or left out.
\<close>

subsection \<open>Strings, JSON values, errors\<close>

text \<open>A JavaScript string is a sequence of UTF-16 code units; \<open>js\<close> embeds an ASCII literal.\<close>

type_synonym jsstring = "16 word list"

definition js :: "string \<Rightarrow> jsstring" where
  "js s = map (\<lambda>c. of_nat (of_char c)) s"

text \<open>The decimal rendering of a non-negative integer inside a template string.\<close>

fun decimal :: "nat \<Rightarrow> jsstring" where
  "decimal n = (if n < 10 then [of_nat (48 + n)]
                else decimal (n div 10) @ [of_nat (48 + n mod 10)])"

declare decimal.simps [simp del]

datatype json =
    JNull
  | JBool bool
  | JNum rat
  | JStr jsstring
  | JArr "json list"
  | JObj "(jsstring \<times> json) list"

text \<open>\<open>!v\<close> is \<open>\<not> truthy v\<close>; \<open>undefined\<close> (a missing property) is \<open>None\<close> and falsy.\<close>

fun truthy :: "json \<Rightarrow> bool" where
  "truthy JNull = False"
| "truthy (JBool b) = b"
| "truthy (JNum n) = (n \<noteq> 0)"
| "truthy (JStr s) = (s \<noteq> [])"
| "truthy (JArr xs) = True"
| "truthy (JObj kvs) = True"

text \<open>
  \<open>body.videoId\<close> and \<open>body.title\<close>: an own property of a parsed object, \<open>undefined\<close> on
  arrays, strings, numbers and \<open>true\<close> (the falsy values never get here). \<open>JObj\<close> lists
  the properties of the object as \<open>JSON.parse\<close> built it, each key once.
\<close>

fun get_prop :: "json \<Rightarrow> jsstring \<Rightarrow> json option" where
  "get_prop (JObj kvs) k = map_of kvs k"
| "get_prop JNull k = None"
| "get_prop (JBool b) k = None"
| "get_prop (JNum n) k = None"
| "get_prop (JStr s) k = None"
| "get_prop (JArr xs) k = None"

datatype error =
    SyntaxError
  | TypeError
  | ENOENT
  | SpawnError
  | ExitCode "int option"
  | EmptyFile
  | ConditionalCheckFailedException
  | ValidationException
  | ServiceError jsstring

text \<open>
  \<open>SyntaxError\<close>: \<open>JSON.parse\<close> on a malformed body. \<open>TypeError\<close>: \<open>.replace\<close> on
  \<open>undefined\<close>, \<open>null\<close> or a value that is not a string. \<open>ENOENT\<close>: \<open>fs.statSync\<close> on a
  missing file. \<open>SpawnError\<close>: the child's \<open>error\<close> event. \<open>ExitCode code\<close>:
  \<open>yt-dlp exited with code ...\<close>, \<open>None\<close> when a signal ended the child. \<open>EmptyFile\<close>:
  \<open>Downloaded file is empty\<close>. \<open>ServiceError name\<close>: any other rejection of an AWS SDK
  call.
\<close>

subsection \<open>The world and its environment\<close>

record file_stat =
  st_size :: nat
  st_mtimeMs :: rat
  st_mode :: nat

record item =
  videoId :: jsstring
  title :: jsstring
  s3Key :: jsstring
  s3Bucket :: jsstring
  downloadedAt :: nat

datatype unit_name = Count | Seconds

datatype event =
    BatchStart nat
  | InvalidMessage jsstring jsstring
  | SkippingAlreadyDownloaded jsstring
  | DownloadSuccess jsstring rat jsstring jsstring
  | DownloadError json jsstring jsstring error
  | BatchComplete
  | CookieNotConfigured
  | UsingFreshCookie rat
  | FailedToDownloadCookies error
  | DownloadFailedWith jsstring error
  | YtDlpLine jsstring
  | VideoDownloadSuccess jsstring jsstring jsstring nat
  | VideoDownloadFailed jsstring jsstring jsstring error
  | GetObject jsstring jsstring
  | Spawn "jsstring list"
  | Upload jsstring jsstring jsstring "jsstring option"
  | DdbGet jsstring json
  | DdbPut jsstring item "error option"
  | PutMetricData string rat unit_name

text \<open>
  The first thirteen events are the program's log lines, with the data they print:
  \<open>log('BatchStart', {recordCount})\<close>, \<open>log('InvalidMessage', {recordId, body})\<close>,
  \<open>Skipping already downloaded video: id\<close>,
  \<open>log('DownloadSuccess', {videoId, duration, s3Key, bucket})\<close>,
  \<open>log('DownloadError', {videoId, recordId, body, error})\<close>, \<open>log('BatchComplete')\<close>,
  the three lines of the cookie cache, \<open>console.warn(Download failed with client: message)\<close>,
  a line of the child's standard error, and the success and failure banners of one attempt
  (key, player client, temporary file, size; URL, player client, key, error).
  The last six are the calls that leave the process: \<open>GetObjectCommand\<close> (bucket, key),
  \<open>spawn('yt-dlp', args)\<close>, \<open>Upload(...).done()\<close> (bucket, key, the file streamed, and
  the name of the error when the upload was rejected), \<open>GetCommand\<close> (table, key),
  \<open>PutCommand\<close> with the condition \<open>attribute_not_exists(videoId)\<close> (table, item, and
  the error when it was rejected) and \<open>PutMetricDataCommand\<close> (name, value, unit).
\<close>

record world =
  now :: nat
  files :: "jsstring \<rightharpoonup> file_stat"
  table :: "jsstring \<rightharpoonup> item"
  trace :: "event list"

datatype get_result =
    GetFailed jsstring
  | StreamFailed jsstring "nat option"
  | GetOk nat

text \<open>
  What \<open>GetObject\<close> and the pipe into \<open>/tmp/cookies.txt.tmp\<close> do: the request is rejected;
  or the stream breaks, with the size of the partial temporary file if one was created; or
  the whole object of the given size is written.
\<close>

datatype child_exit = ChildError | Closed "int option"

record child =
  stderr_lines :: "jsstring list"
  outcome :: child_exit
  files_after :: "jsstring \<rightharpoonup> file_stat"

text \<open>
  One run of the extraction subprocess: the lines its standard error prints (each chunk
  trimmed and split at newlines), how it ends (the \<open>error\<close> event, or \<open>close\<close> with an
  exit code) and the file system it leaves behind.
\<close>

record env =
  JSON_parse :: "jsstring \<Rightarrow> json option"
  elapsed :: "world \<Rightarrow> nat"
  get_object :: "world \<Rightarrow> jsstring \<Rightarrow> jsstring \<Rightarrow> get_result"
  yt_dlp :: "world \<Rightarrow> jsstring list \<Rightarrow> child"
  upload_fault :: "world \<Rightarrow> jsstring \<Rightarrow> jsstring \<Rightarrow> jsstring option"
  ddb_get_fault :: "world \<Rightarrow> jsstring \<Rightarrow> jsstring option"
  ddb_put_fault :: "world \<Rightarrow> item \<Rightarrow> jsstring option"
  others :: "world \<Rightarrow> jsstring \<rightharpoonup> item"
  metric_fault :: "world \<Rightarrow> string \<Rightarrow> jsstring option"

text \<open>
  \<open>JSON_parse\<close> is \<open>JSON.parse\<close> (\<open>None\<close> when it throws); \<open>elapsed\<close> is the time that
  passes at a suspension point; the \<open>_fault\<close> oracles name the error with which a service
  rejects a call, if it does; \<open>others\<close> are the records that concurrent executions have
  inserted into the table by the time this one commits.
\<close>

record config =
  BUCKET_NAME :: jsstring
  TABLE_NAME :: jsstring
  COOKIE_S3_KEY :: jsstring
  COOKIE_MAX_AGE_HOURS :: "int option"

text \<open>
  The four environment variables, read once when the module loads.
  \<open>COOKIE_MAX_AGE_HOURS\<close> is the result of \<open>parseInt\<close>: an integer, or \<open>NaN\<close> (\<open>None\<close>).
\<close>

definition COOKIE_LOCAL_PATH :: jsstring where
  "COOKIE_LOCAL_PATH = js ''/tmp/cookies.txt''"

definition COOKIE_TMP_PATH :: jsstring where
  "COOKIE_TMP_PATH = js ''/tmp/cookies.txt.tmp''"

definition emit :: "event \<Rightarrow> world \<Rightarrow> world" where
  "emit e w = w\<lparr>trace := trace w @ [e]\<rparr>"

definition await :: "env \<Rightarrow> world \<Rightarrow> world" where
  "await env w = w\<lparr>now := now w + elapsed env w\<rparr>"

definition unlink :: "jsstring \<Rightarrow> world \<Rightarrow> world" where
  "unlink p w = w\<lparr>files := (files w)(p := None)\<rparr>"

subsection \<open>recordMetric\<close>

definition recordMetric ::
  "env \<Rightarrow> world \<Rightarrow> string \<Rightarrow> rat \<Rightarrow> unit_name \<Rightarrow> (error + unit) \<times> world" where
  "recordMetric env w name v u =
     (let w1 = await env (emit (PutMetricData name v u) w)
      in case metric_fault env w name of
           None \<Rightarrow> (Inr (), w1)
         | Some n \<Rightarrow> (Inl (ServiceError n), w1))"

subsection \<open>ensureCookieFileIfConfigured\<close>

definition ageHours :: "nat \<Rightarrow> file_stat \<Rightarrow> rat" where
  "ageHours t st = (of_nat t - st_mtimeMs st) / (1000 * 60 * 60)"

text \<open>\<open>ageHours < COOKIE_MAX_AGE_HOURS\<close>, false when the right operand is \<open>NaN\<close>.\<close>

definition less_number :: "rat \<Rightarrow> int option \<Rightarrow> bool" where
  "less_number a m = (case m of None \<Rightarrow> False | Some h \<Rightarrow> a < of_int h)"

text \<open>The \<open>catch\<close> block: warn, and remove the partial temporary file if there is one.\<close>

definition cookie_catch :: "error \<Rightarrow> world \<Rightarrow> world" where
  "cookie_catch err w =
     (let w1 = emit (FailedToDownloadCookies err) w
      in if files w1 COOKIE_TMP_PATH \<noteq> None then unlink COOKIE_TMP_PATH w1 else w1)"

text \<open>
  The second half of the \<open>try\<close> block: read the object, stream it to the temporary path,
  rename it into place, restrict its mode to 0o600 (384).
\<close>

definition downloadCookie :: "env \<Rightarrow> config \<Rightarrow> world \<Rightarrow> world" where
  "downloadCookie env cfg w =
     (let w1 = await env (emit (GetObject (BUCKET_NAME cfg) (COOKIE_S3_KEY cfg)) w)
      in case get_object env w (BUCKET_NAME cfg) (COOKIE_S3_KEY cfg) of
           GetFailed n \<Rightarrow> cookie_catch (ServiceError n) w1
         | StreamFailed n partial \<Rightarrow>
             cookie_catch (ServiceError n)
               (await env
                 (case partial of
                    None \<Rightarrow> w1
                  | Some sz \<Rightarrow>
                      w1\<lparr>files := (files w1)(COOKIE_TMP_PATH \<mapsto>
                            \<lparr>st_size = sz, st_mtimeMs = of_nat (now w1), st_mode = 384\<rparr>)\<rparr>))
         | GetOk sz \<Rightarrow>
             (let w2 = await env w1;
                  f = \<lparr>st_size = sz, st_mtimeMs = of_nat (now w2), st_mode = 384\<rparr>
              in w2\<lparr>files := (files w2)(COOKIE_TMP_PATH := None,
                                          COOKIE_LOCAL_PATH \<mapsto> f)\<rparr>))"

definition ensureCookieFileIfConfigured :: "env \<Rightarrow> config \<Rightarrow> world \<Rightarrow> world" where
  "ensureCookieFileIfConfigured env cfg w =
     (if COOKIE_S3_KEY cfg = [] \<or> BUCKET_NAME cfg = [] then emit CookieNotConfigured w
      else case files w COOKIE_LOCAL_PATH of
             None \<Rightarrow> downloadCookie env cfg w
           | Some stat \<Rightarrow>
               if less_number (ageHours (now w) stat) (COOKIE_MAX_AGE_HOURS cfg)
               then emit (UsingFreshCookie (ageHours (now w) stat)) w
               else downloadCookie env cfg w)"

subsection \<open>attemptDownload\<close>

definition tempFile_at :: "nat \<Rightarrow> jsstring" where
  "tempFile_at t = js ''/tmp/video_'' @ decimal t @ js ''.mp4''"

definition yt_dlp_args :: "world \<Rightarrow> jsstring \<Rightarrow> jsstring \<Rightarrow> jsstring \<Rightarrow> jsstring list" where
  "yt_dlp_args w videoUrl playerClient tempFile =
     [js ''-f'', js ''worst[ext=mp4]/worstvideo+worstaudio/worst'',
      js ''--no-progress'',
      js ''--cache-dir'', js ''/tmp/yt-dlp-cache'',
      js ''--paths'', js ''temp:/tmp'',
      js ''--no-playlist'',
      js ''--force-ipv4'',
      js ''--extractor-args'', js ''youtube:player_client='' @ playerClient,
      js ''--no-abort-on-error'',
      js ''--merge-output-format'', js ''mp4'',
      js ''-o'', tempFile]
     @ (if files w COOKIE_LOCAL_PATH \<noteq> None then [js ''--cookies'', COOKIE_LOCAL_PATH] else [])
     @ [videoUrl]"

text \<open>The promise around \<open>spawn\<close>: it resolves only when the child closes with code 0.\<close>

definition spawn_yt_dlp :: "env \<Rightarrow> world \<Rightarrow> jsstring list \<Rightarrow> (error + unit) \<times> world" where
  "spawn_yt_dlp env w args =
     (let c = yt_dlp env w args;
          w1 = await env
                 (w\<lparr>files := files_after c,
                    trace := trace w @ [Spawn args] @ map YtDlpLine (stderr_lines c)\<rparr>)
      in case outcome c of
           ChildError \<Rightarrow> (Inl SpawnError, w1)
         | Closed code \<Rightarrow> if code = Some 0 then (Inr (), w1) else (Inl (ExitCode code), w1))"

text \<open>The \<open>try\<close> block of one attempt.\<close>

definition attempt_try ::
  "env \<Rightarrow> config \<Rightarrow> world \<Rightarrow> jsstring \<Rightarrow> jsstring \<Rightarrow> jsstring \<Rightarrow> jsstring
     \<Rightarrow> (error + unit) \<times> world" where
  "attempt_try env cfg w videoUrl key playerClient tempFile =
     (case spawn_yt_dlp env w (yt_dlp_args w videoUrl playerClient tempFile) of
        (Inl err, w1) \<Rightarrow> (Inl err, w1)
      | (Inr u, w1) \<Rightarrow>
          (case files w1 tempFile of
             None \<Rightarrow> (Inl ENOENT, w1)
           | Some stats \<Rightarrow>
               if st_size stats = 0 then (Inl EmptyFile, w1)
               else (case upload_fault env w1 (BUCKET_NAME cfg) key of
                       Some n \<Rightarrow>
                         (Inl (ServiceError n),
                          await env (emit (Upload (BUCKET_NAME cfg) key tempFile (Some n)) w1))
                     | None \<Rightarrow>
                         (Inr (),
                          emit (VideoDownloadSuccess key playerClient tempFile (st_size stats))
                            (await env
                              (emit (Upload (BUCKET_NAME cfg) key tempFile None) w1))))))"

definition attemptDownload ::
  "env \<Rightarrow> config \<Rightarrow> world \<Rightarrow> jsstring \<Rightarrow> jsstring \<Rightarrow> jsstring \<Rightarrow> (error + unit) \<times> world" where
  "attemptDownload env cfg w videoUrl key playerClient =
     (let w0 = ensureCookieFileIfConfigured env cfg w;
          tempFile = tempFile_at (now w0);
          (r, w2) =
            (case attempt_try env cfg w0 videoUrl key playerClient tempFile of
               (Inr u, w1) \<Rightarrow> (Inr u, w1)
             | (Inl err, w1) \<Rightarrow>
                 (Inl err, emit (VideoDownloadFailed videoUrl playerClient key err) w1))
      in (r, if files w2 tempFile \<noteq> None then unlink tempFile w2 else w2))"

subsection \<open>downloadToS3\<close>

definition clientStrategies :: "jsstring list" where
  "clientStrategies = [js ''ios'', js ''ios,web'', js ''web'', js ''android_creator'']"

text \<open>One turn of the loop: the attempt, and the \<open>catch\<close> that warns about its failure.\<close>

definition strategy_step ::
  "env \<Rightarrow> config \<Rightarrow> world \<Rightarrow> jsstring \<Rightarrow> jsstring \<Rightarrow> jsstring \<Rightarrow> (error + unit) \<times> world" where
  "strategy_step env cfg w videoUrl key client =
     (case attemptDownload env cfg w videoUrl key client of
        (Inr u, w1) \<Rightarrow> (Inr u, w1)
      | (Inl err, w1) \<Rightarrow> (Inl err, emit (DownloadFailedWith client err) w1))"

fun try_strategies ::
  "env \<Rightarrow> config \<Rightarrow> world \<Rightarrow> jsstring \<Rightarrow> jsstring \<Rightarrow> jsstring list \<Rightarrow> (error + unit) \<times> world" where
  "try_strategies env cfg w videoUrl key [] = (Inr (), w)"
| "try_strategies env cfg w videoUrl key (client # rest) =
     (case strategy_step env cfg w videoUrl key client of
        (Inr u, w1) \<Rightarrow> (Inr (), w1)
      | (Inl err, w1) \<Rightarrow>
          if client = clientStrategies ! (length clientStrategies - 1) then (Inl err, w1)
          else try_strategies env cfg w1 videoUrl key rest)"

definition downloadToS3 ::
  "env \<Rightarrow> config \<Rightarrow> world \<Rightarrow> jsstring \<Rightarrow> jsstring \<Rightarrow> (error + unit) \<times> world" where
  "downloadToS3 env cfg w videoUrl key = try_strategies env cfg w videoUrl key clientStrategies"

subsection \<open>The completion table\<close>

text \<open>
  \<open>GetCommand\<close>: a point lookup by \<open>videoId\<close>. \<open>PutCommand\<close> with
  \<open>attribute_not_exists(videoId)\<close>: the table decides, at the moment of the write and with
  the records of concurrent executions in it, whether the item goes in.
\<close>

definition ddb_get ::
  "env \<Rightarrow> config \<Rightarrow> world \<Rightarrow> jsstring \<Rightarrow> (error + item option) \<times> world" where
  "ddb_get env cfg w vid =
     (let w1 = await env (emit (DdbGet (TABLE_NAME cfg) (JStr vid)) w)
      in case ddb_get_fault env w vid of
           Some n \<Rightarrow> (Inl (ServiceError n), w1)
         | None \<Rightarrow> (Inr (table w vid), w1))"

definition ddb_put :: "env \<Rightarrow> config \<Rightarrow> world \<Rightarrow> item \<Rightarrow> (error + unit) \<times> world" where
  "ddb_put env cfg w it =
     (let tbl = others env w ++ table w;
          r = (case ddb_put_fault env w it of
                 Some n \<Rightarrow> Some (ServiceError n)
               | None \<Rightarrow>
                   if tbl (videoId it) \<noteq> None then Some ConditionalCheckFailedException
                   else None);
          w1 = await env (emit (DdbPut (TABLE_NAME cfg) it r) w)
      in case r of
           Some err \<Rightarrow> (Inl err, w1\<lparr>table := tbl\<rparr>)
         | None \<Rightarrow> (Inr (), w1\<lparr>table := tbl(videoId it \<mapsto> it)\<rparr>))"

subsection \<open>handler\<close>

definition allowed :: "16 word \<Rightarrow> bool" where
  "allowed c \<longleftrightarrow>
     (0x61 \<le> c \<and> c \<le> 0x7A) \<or> (0x41 \<le> c \<and> c \<le> 0x5A) \<or> (0x30 \<le> c \<and> c \<le> 0x39)
     \<or> c = 0x20 \<or> c = 0x2D"

text \<open>
  \<open>title.replace(/[^a-z0-9 -]/gi, '_').substring(0, 100)\<close>: without the \<open>u\<close> flag the
  class matches code unit by code unit, and case-insensitively it holds \<open>a\<close>-\<open>z\<close>,
  \<open>A\<close>-\<open>Z\<close>, \<open>0\<close>-\<open>9\<close>, the space and the hyphen; every other unit becomes \<open>_\<close> (0x5F).
\<close>

definition safeTitle :: "jsstring \<Rightarrow> jsstring" where
  "safeTitle t = take 100 (map (\<lambda>c. if allowed c then c else 0x5F) t)"

definition s3Key_of :: "jsstring \<Rightarrow> jsstring \<Rightarrow> jsstring" where
  "s3Key_of t vid = js ''videos/'' @ safeTitle t @ js ''_'' @ vid @ js ''.mp4''"

definition videoUrl_of :: "jsstring \<Rightarrow> jsstring" where
  "videoUrl_of vid = js ''https://www.youtube.com/watch?v='' @ vid"

record sqs_record =
  messageId :: jsstring
  body :: jsstring

record sqs_event =
  Records :: "sqs_record list"

text \<open>How one turn of the \<open>for\<close> loop ends when nothing is thrown.\<close>

datatype completion = Normal | Continue | Return

text \<open>From \<open>// Record successful download in DynamoDB\<close> to the end of the \<open>try\<close> block.\<close>

definition commit ::
  "env \<Rightarrow> config \<Rightarrow> world \<Rightarrow> nat \<Rightarrow> jsstring \<Rightarrow> jsstring \<Rightarrow> jsstring
     \<Rightarrow> (error + completion) \<times> world" where
  "commit env cfg w start vid t key =
     (case ddb_put env cfg w
             \<lparr>videoId = vid, title = t, s3Key = key, s3Bucket = BUCKET_NAME cfg,
              downloadedAt = now w\<rparr> of
        (Inl err, w1) \<Rightarrow> (Inl err, w1)
      | (Inr u, w1) \<Rightarrow>
          (let duration = (of_nat (now w1) - of_nat start) / 1000
           in case recordMetric env w1 ''VideosDownloaded'' 1 Count of
                (Inl err, w2) \<Rightarrow> (Inl err, w2)
              | (Inr u, w2) \<Rightarrow>
                  (case recordMetric env w2 ''DownloadDuration'' duration Seconds of
                     (Inl err, w3) \<Rightarrow> (Inl err, w3)
                   | (Inr u, w3) \<Rightarrow>
                       (Inr Normal,
                        emit (DownloadSuccess vid duration key (BUCKET_NAME cfg)) w3))))"

text \<open>
  From \<open>// Process video download\<close> on. \<open>ttl\<close> is the variable \<open>title\<close> after the
  destructuring: \<open>None\<close> is \<open>undefined\<close>, and \<open>.replace\<close> exists on strings only.
\<close>

definition process_video ::
  "env \<Rightarrow> config \<Rightarrow> world \<Rightarrow> jsstring \<Rightarrow> json option \<Rightarrow> (error + completion) \<times> world" where
  "process_video env cfg w vid ttl =
     (let start = now w
      in case ttl of
           Some (JStr t) \<Rightarrow>
             (let key = s3Key_of t vid
              in case downloadToS3 env cfg w (videoUrl_of vid) key of
                   (Inl err, w1) \<Rightarrow> (Inl err, w1)
                 | (Inr u, w1) \<Rightarrow> commit env cfg w1 start vid t key)
         | _ \<Rightarrow> (Inl TypeError, w))"

text \<open>
  The \<open>try\<close> block of one turn. A thrown error comes with the value the variable
  \<open>videoId\<close> has at that point (\<open>''\<close> before the destructuring). The table's partition key
  has type STRING (lib/youtube-file-sync-stack.ts), so DynamoDB rejects a lookup whose key is
  any other JSON value.
\<close>

definition try_block ::
  "env \<Rightarrow> config \<Rightarrow> world \<Rightarrow> sqs_record \<Rightarrow> ((error \<times> json) + completion) \<times> world" where
  "try_block env cfg w record =
     (case JSON_parse env (body record) of
        None \<Rightarrow> (Inl (SyntaxError, JStr []), w)
      | Some b \<Rightarrow>
          if \<not> truthy b
          then (Inr Return, emit (InvalidMessage (messageId record) (body record)) w)
          else
            (case get_prop b (js ''videoId'') of
               None \<Rightarrow> (Inr Return, emit (InvalidMessage (messageId record) (body record)) w)
             | Some v \<Rightarrow>
                 if \<not> truthy v
                 then (Inr Return, emit (InvalidMessage (messageId record) (body record)) w)
                 else
                   (case v of
                      JStr vid \<Rightarrow>
                        (case ddb_get env cfg w vid of
                           (Inl err, w1) \<Rightarrow> (Inl (err, v), w1)
                         | (Inr (Some existing), w1) \<Rightarrow>
                             (Inr Continue, emit (SkippingAlreadyDownloaded vid) w1)
                         | (Inr None, w1) \<Rightarrow>
                             (case process_video env cfg w1 vid (get_prop b (js ''title'')) of
                                (Inl err, w2) \<Rightarrow> (Inl (err, v), w2)
                              | (Inr c, w2) \<Rightarrow> (Inr c, w2)))
                    | _ \<Rightarrow>
                        (Inl (ValidationException, v),
                         await env (emit (DdbGet (TABLE_NAME cfg) v) w)))))"

text \<open>One turn of the loop: the \<open>try\<close> block and the \<open>catch\<close> that counts and logs.\<close>

definition iteration ::
  "env \<Rightarrow> config \<Rightarrow> world \<Rightarrow> sqs_record \<Rightarrow> (error + completion) \<times> world" where
  "iteration env cfg w record =
     (case try_block env cfg w record of
        (Inr c, w1) \<Rightarrow> (Inr c, w1)
      | (Inl (err, v), w1) \<Rightarrow>
          (case recordMetric env w1 ''DownloadFailures'' 1 Count of
             (Inl e, w2) \<Rightarrow> (Inl e, w2)
           | (Inr u, w2) \<Rightarrow>
               (Inr Normal,
                emit (DownloadError (if truthy v then v else JStr (js ''(unknown)''))
                        (messageId record) (body record) err) w2)))"

fun for_records ::
  "env \<Rightarrow> config \<Rightarrow> world \<Rightarrow> sqs_record list \<Rightarrow> (error + unit) \<times> world" where
  "for_records env cfg w [] = (Inr (), emit BatchComplete w)"
| "for_records env cfg w (record # rest) =
     (case iteration env cfg w record of
        (Inl e, w1) \<Rightarrow> (Inl e, w1)
      | (Inr Return, w1) \<Rightarrow> (Inr (), w1)
      | (Inr c, w1) \<Rightarrow> for_records env cfg w1 rest)"

definition handler :: "env \<Rightarrow> config \<Rightarrow> world \<Rightarrow> sqs_event \<Rightarrow> (error + unit) \<times> world" where
  "handler env cfg w ev =
     for_records env cfg (emit (BatchStart (length (Records ev))) w) (Records ev)"

subsection \<open>Observations on a run\<close>

text \<open>What a run added to the trace, and the calls in it that the properties count.\<close>

definition new_events :: "world \<Rightarrow> world \<Rightarrow> event list" where
  "new_events w w' = drop (length (trace w)) (trace w')"

fun is_get_object :: "event \<Rightarrow> bool" where
  "is_get_object (GetObject b k) = True"
| "is_get_object _ = False"

fun is_spawn :: "event \<Rightarrow> bool" where
  "is_spawn (Spawn args) = True"
| "is_spawn _ = False"

fun is_upload :: "event \<Rightarrow> bool" where
  "is_upload (Upload b k p r) = True"
| "is_upload _ = False"

text \<open>An upload that was carried through: the object is in the bucket.\<close>

fun is_stored :: "event \<Rightarrow> bool" where
  "is_stored (Upload b k p None) = True"
| "is_stored _ = False"


text \<open>
  The player client of a subprocess invocation: what follows \<open>youtube:player_client=\<close>
  (22 code units) in the argument after \<open>--extractor-args\<close>.
\<close>

fun client_of :: "event \<Rightarrow> jsstring" where
  "client_of (Spawn args) = drop 22 (args ! 10)"
| "client_of _ = []"

text \<open>
  The events of a fetch: the cookie cache, the subprocess, the upload and their log lines.
  It never touches the table, the metrics or the batch log.
\<close>

fun fetch_event :: "event \<Rightarrow> bool" where
  "fetch_event CookieNotConfigured = True"
| "fetch_event (UsingFreshCookie a) = True"
| "fetch_event (FailedToDownloadCookies e) = True"
| "fetch_event (DownloadFailedWith c e) = True"
| "fetch_event (YtDlpLine l) = True"
| "fetch_event (VideoDownloadSuccess k c p n) = True"
| "fetch_event (VideoDownloadFailed u c k e) = True"
| "fetch_event (GetObject b k) = True"
| "fetch_event (Spawn args) = True"
| "fetch_event (Upload b k p r) = True"
| "fetch_event _ = False"

text \<open>The world after the given strategies have been tried in turn, whatever they gave.\<close>

primrec after_steps ::
  "env \<Rightarrow> config \<Rightarrow> world \<Rightarrow> jsstring \<Rightarrow> jsstring \<Rightarrow> jsstring list \<Rightarrow> world" where
  "after_steps env cfg w url key [] = w"
| "after_steps env cfg w url key (c # cs) =
     after_steps env cfg (snd (strategy_step env cfg w url key c)) url key cs"

text \<open>
  What a failed attempt leaves behind when the failure is the child's or its output's:
  the child has run, the failure banner is printed, the temporary file is gone.
\<close>

definition rejected_attempt ::
  "env \<Rightarrow> world \<Rightarrow> child \<Rightarrow> jsstring list \<Rightarrow> jsstring \<Rightarrow> event \<Rightarrow> world" where
  "rejected_attempt env w c args tempFile banner =
     unlink tempFile
       (emit banner
         (await env
           (w\<lparr>files := files_after c,
              trace := trace w @ [Spawn args] @ map YtDlpLine (stderr_lines c)\<rparr>)))"


text \<open>
  The characters of a title that the sanitization keeps: letters, digits, space, hyphen.
\<close>

definition kept :: "16 word \<Rightarrow> bool" where
  "kept c \<longleftrightarrow>
     c \<in> set (js ''abcdefghijklmnopqrstuvwxyzABCDEFGHIJKLMNOPQRSTUVWXYZ0123456789 -'')"

text \<open>
  The characters the sanitized title may hold: letters, digits, space, hyphen, underscore.
\<close>

definition key_safe :: "16 word \<Rightarrow> bool" where
  "key_safe c \<longleftrightarrow>
     c \<in> set (js ''abcdefghijklmnopqrstuvwxyzABCDEFGHIJKLMNOPQRSTUVWXYZ0123456789 -_'')"

subsection \<open>Concrete scenarios\<close>

text \<open>
  A deployment as lib/youtube-file-sync-stack.ts configures it (cookie key
  \<open>secrets/cookies.txt\<close>, maximal age 168 hours), an empty world, and an environment in
  which every service answers, one millisecond passes at each suspension point, and the
  subprocess follows a script: for each \<open>--extractor-args\<close> value, its exit code and the
  size of the output file it leaves at the path after \<open>-o\<close>, if any.
\<close>

definition cfg0 :: config where
  "cfg0 = \<lparr>BUCKET_NAME = js ''youtube-file-sync-videos-bucket'', TABLE_NAME = js ''StateTable'',
           COOKIE_S3_KEY = js ''secrets/cookies.txt'', COOKIE_MAX_AGE_HOURS = Some 168\<rparr>"

definition world0 :: world where
  "world0 = \<lparr>now = 1000, files = Map.empty, table = Map.empty, trace = []\<rparr>"

definition msg_full :: jsstring where
  \<open>msg_full = js ''{"videoId":"abc","title":"My video"}''\<close>

definition msg_no_title :: jsstring where
  \<open>msg_no_title = js ''{"videoId":"abc"}''\<close>

definition msg_no_id :: jsstring where
  \<open>msg_no_id = js ''{"title":"My video"}''\<close>

definition parsed_full :: json where
  "parsed_full = JObj [(js ''videoId'', JStr (js ''abc'')), (js ''title'', JStr (js ''My video''))]"

definition parsed_no_title :: json where
  "parsed_no_title = JObj [(js ''videoId'', JStr (js ''abc''))]"

definition parsed_no_id :: json where
  "parsed_no_id = JObj [(js ''title'', JStr (js ''My video''))]"

definition parse0 :: "jsstring \<Rightarrow> json option" where
  "parse0 s =
     (if s = msg_full then Some parsed_full
      else if s = msg_no_title then Some parsed_no_title
      else if s = msg_no_id then Some parsed_no_id
      else None)"

definition record_no_id :: sqs_record where
  "record_no_id = \<lparr>messageId = js ''m1'', body = msg_no_id\<rparr>"

definition record_full :: sqs_record where
  "record_full = \<lparr>messageId = js ''m2'', body = msg_full\<rparr>"

definition record_no_title :: sqs_record where
  "record_no_title = \<lparr>messageId = js ''m3'', body = msg_no_title\<rparr>"

definition scripted :: "(jsstring \<Rightarrow> int \<times> nat option) \<Rightarrow> (jsstring \<rightharpoonup> item) \<Rightarrow> env" where
  "scripted script concurrent =
     \<lparr>JSON_parse = parse0,
      elapsed = (\<lambda>w. 1),
      get_object = (\<lambda>w b k. GetOk 2048),
      yt_dlp = (\<lambda>w args.
        \<lparr>stderr_lines = [],
         outcome = Closed (Some (fst (script (args ! 10)))),
         files_after =
           (case snd (script (args ! 10)) of
              None \<Rightarrow> files w
            | Some n \<Rightarrow>
                (files w)(args ! 15 \<mapsto>
                  \<lparr>st_size = n, st_mtimeMs = of_nat (now w), st_mode = 420\<rparr>))\<rparr>),
      upload_fault = (\<lambda>w b k. None),
      ddb_get_fault = (\<lambda>w k. None),
      ddb_put_fault = (\<lambda>w it. None),
      others = (\<lambda>w. concurrent),
      metric_fault = (\<lambda>w n. None)\<rparr>"

text \<open>Every strategy downloads 1024 bytes; only \<open>android_creator\<close> does; none does.\<close>

definition all_work :: "jsstring \<Rightarrow> int \<times> nat option" where
  "all_work a = (0, Some 1024)"

definition only_android_creator :: "jsstring \<Rightarrow> int \<times> nat option" where
  "only_android_creator a =
     (if a = js ''youtube:player_client=android_creator'' then (0, Some 1024) else (1, None))"


text \<open>The child exits with code 0 and leaves an empty file.\<close>

definition empty_output :: "jsstring \<Rightarrow> int \<times> nat option" where
  "empty_output a = (0, Some 0)"


definition metrics_down :: "env \<Rightarrow> env" where
  "metrics_down env = env\<lparr>metric_fault := (\<lambda>w n. Some (js ''ServiceUnavailable''))\<rparr>"

text \<open>A title of 150 slashes.\<close>

definition long_title :: jsstring where
  "long_title = replicate 150 0x2F"

text \<open>A cached cookie file written at time 0, seen one hour and 169 hours later.\<close>

definition cached_cookie :: "nat \<Rightarrow> world" where
  "cached_cookie t =
     \<lparr>now = t,
      files = [COOKIE_LOCAL_PATH \<mapsto> \<lparr>st_size = 2048, st_mtimeMs = 0, st_mode = 384\<rparr>],
      table = Map.empty, trace = []\<rparr>"

text \<open>The record another execution has already committed for the video \<open>abc\<close>.\<close>

definition their_item :: item where
  "their_item = \<lparr>videoId = js ''abc'', title = js ''My video'',
                 s3Key = js ''videos/My video_abc.mp4'',
                 s3Bucket = js ''youtube-file-sync-videos-bucket'', downloadedAt = 900\<rparr>"

text \<open>
  An environment in which another execution has committed \<open>abc\<close> by the time this one
  does, and the worlds of a run on \<open>record_full\<close>: after the lookup, after the fetch, and
  the item the run then tries to put.
\<close>

definition race_env :: env where
  "race_env = scripted all_work [js ''abc'' \<mapsto> their_item]"

definition looked_up :: "env \<Rightarrow> world" where
  "looked_up env = snd (ddb_get env cfg0 world0 (js ''abc''))"

definition fetched :: "env \<Rightarrow> world" where
  "fetched env =
     snd (downloadToS3 env cfg0 (looked_up env) (videoUrl_of (js ''abc''))
            (s3Key_of (js ''My video'') (js ''abc'')))"

definition our_item :: "env \<Rightarrow> item" where
  "our_item env =
     \<lparr>videoId = js ''abc'', title = js ''My video'',
      s3Key = s3Key_of (js ''My video'') (js ''abc''), s3Bucket = BUCKET_NAME cfg0,
      downloadedAt = now (fetched env)\<rparr>"



text \<open>The first attempt of a fetch in the empty world: after the cookie check, its temporary
  file, the arguments of its subprocess and what the subprocess does.\<close>

definition checked :: "env \<Rightarrow> world" where
  "checked env = ensureCookieFileIfConfigured env cfg0 world0"

definition ios_temp :: "env \<Rightarrow> jsstring" where
  "ios_temp env = tempFile_at (now (checked env))"

definition ios_args :: "env \<Rightarrow> jsstring list" where
  "ios_args env = yt_dlp_args (checked env) (videoUrl_of (js ''abc'')) (js ''ios'') (ios_temp env)"

definition ios_child :: "env \<Rightarrow> child" where
  "ios_child env = yt_dlp env (checked env) (ios_args env)"

section \<open>Basic facts about the world\<close>

lemma emit_simps [simp]:
  "trace (emit e w) = trace w @ [e]" "now (emit e w) = now w"
  "files (emit e w) = files w" "table (emit e w) = table w"
  by (simp_all add: emit_def)

lemma await_simps [simp]:
  "trace (await env w) = trace w" "now (await env w) = now w + elapsed env w"
  "files (await env w) = files w" "table (await env w) = table w"
  by (simp_all add: await_def)

lemma unlink_simps [simp]:
  "trace (unlink p w) = trace w" "now (unlink p w) = now w"
  "files (unlink p w) = (files w)(p := None)" "table (unlink p w) = table w"
  by (simp_all add: unlink_def)

lemma new_events_append [simp]: "trace w' = trace w @ evs \<Longrightarrow> new_events w w' = evs"
  by (simp add: new_events_def)

section \<open>The credential cache\<close>

lemma cookie_catch_simps [simp]:
  "trace (cookie_catch err w) = trace w @ [FailedToDownloadCookies err]"
  "table (cookie_catch err w) = table w"
  by (simp_all add: cookie_catch_def Let_def)

lemma downloadCookie_trace:
  "trace (downloadCookie env cfg w) =
     trace w @ GetObject (BUCKET_NAME cfg) (COOKIE_S3_KEY cfg) #
       (case get_object env w (BUCKET_NAME cfg) (COOKIE_S3_KEY cfg) of
          GetFailed n \<Rightarrow> [FailedToDownloadCookies (ServiceError n)]
        | StreamFailed n partial \<Rightarrow> [FailedToDownloadCookies (ServiceError n)]
        | GetOk sz \<Rightarrow> [])"
  by (simp add: downloadCookie_def Let_def split: get_result.splits option.splits)

text \<open>
  C6. With a cached cookie file and a numeric maximal age: while the file's age in hours is
  strictly below the maximum, \<open>ensureCookieFileIfConfigured\<close> sends no \<open>GetObject\<close> and
  leaves the files as they are; once the age has reached the maximum (and the cookie key and
  the bucket are configured), it sends exactly one \<open>GetObject\<close>, for the configured object.
\<close>

theorem cookie_cache_freshness:
  assumes "files w COOKIE_LOCAL_PATH = Some stat" and "COOKIE_MAX_AGE_HOURS cfg = Some h"
  shows "(ageHours (now w) stat < of_int h \<longrightarrow>
            filter is_get_object (new_events w (ensureCookieFileIfConfigured env cfg w)) = [] \<and>
            files (ensureCookieFileIfConfigured env cfg w) = files w) \<and>
         (of_int h \<le> ageHours (now w) stat \<and> COOKIE_S3_KEY cfg \<noteq> [] \<and> BUCKET_NAME cfg \<noteq> [] \<longrightarrow>
            filter is_get_object (new_events w (ensureCookieFileIfConfigured env cfg w)) =
              [GetObject (BUCKET_NAME cfg) (COOKIE_S3_KEY cfg)])"
  using assms
  by (simp add: ensureCookieFileIfConfigured_def less_number_def new_events_def
       downloadCookie_trace split: get_result.splits)

text \<open>A cookie file one hour old is reused; at 169 hours against 168 it is read once.\<close>

theorem cookie_cache_freshness_witness:
  "files (cached_cookie 3600000) COOKIE_LOCAL_PATH
     = Some \<lparr>st_size = 2048, st_mtimeMs = 0, st_mode = 384\<rparr>
   \<and> COOKIE_MAX_AGE_HOURS cfg0 = Some 168
   \<and> ageHours (now (cached_cookie 3600000)) \<lparr>st_size = 2048, st_mtimeMs = 0, st_mode = 384\<rparr> = 1
   \<and> filter is_get_object (new_events (cached_cookie 3600000)
        (ensureCookieFileIfConfigured (scripted all_work Map.empty) cfg0
          (cached_cookie 3600000))) = []
   \<and> ageHours (now (cached_cookie 608400000)) \<lparr>st_size = 2048, st_mtimeMs = 0, st_mode = 384\<rparr>
       = 169
   \<and> filter is_get_object (new_events (cached_cookie 608400000)
        (ensureCookieFileIfConfigured (scripted all_work Map.empty) cfg0
          (cached_cookie 608400000)))
       = [GetObject (BUCKET_NAME cfg0) (COOKIE_S3_KEY cfg0)]"
proof -
  let ?st = "\<lparr>st_size = 2048, st_mtimeMs = 0, st_mode = 384\<rparr>"
  have f: "files (cached_cookie t) COOKIE_LOCAL_PATH = Some ?st" for t
    by (simp add: cached_cookie_def)
  have m: "COOKIE_MAX_AGE_HOURS cfg0 = Some 168"
    by (simp add: cfg0_def)
  have a1: "ageHours (now (cached_cookie 3600000)) ?st = 1"
    by (simp add: ageHours_def cached_cookie_def)
  have a2: "ageHours (now (cached_cookie 608400000)) ?st = 169"
    by (simp add: ageHours_def cached_cookie_def)
  have c: "COOKIE_S3_KEY cfg0 \<noteq> [] \<and> BUCKET_NAME cfg0 \<noteq> []"
    by (simp add: cfg0_def js_def)
  have "filter is_get_object (new_events (cached_cookie 3600000)
        (ensureCookieFileIfConfigured (scripted all_work Map.empty) cfg0
          (cached_cookie 3600000))) = []"
    using cookie_cache_freshness [OF f m, of 3600000 "scripted all_work Map.empty"] a1 by simp
  moreover have "filter is_get_object (new_events (cached_cookie 608400000)
        (ensureCookieFileIfConfigured (scripted all_work Map.empty) cfg0
          (cached_cookie 608400000)))
       = [GetObject (BUCKET_NAME cfg0) (COOKIE_S3_KEY cfg0)]"
    using cookie_cache_freshness [OF f m, of 608400000 "scripted all_work Map.empty"] a2 c
    by simp
  ultimately show ?thesis using f m a1 a2 by simp
qed

section \<open>One download attempt\<close>

lemma cookie_effect:
  "\<exists>evs. trace (ensureCookieFileIfConfigured env cfg w) = trace w @ evs
      \<and> list_all fetch_event evs \<and> filter is_spawn evs = [] \<and> filter is_upload evs = []"
  by (simp add: ensureCookieFileIfConfigured_def downloadCookie_trace
      split: option.splits get_result.splits)

lemma cookie_table [simp]: "table (ensureCookieFileIfConfigured env cfg w) = table w"
  by (simp add: ensureCookieFileIfConfigured_def downloadCookie_def Let_def
      split: option.splits get_result.splits)

lemma spawn_effect:
  assumes "spawn_yt_dlp env w args = (r, w')"
  shows "trace w' = trace w @ Spawn args # map YtDlpLine (stderr_lines (yt_dlp env w args))
       \<and> table w' = table w
       \<and> files w' = files_after (yt_dlp env w args)
       \<and> (r = Inr () \<longleftrightarrow> outcome (yt_dlp env w args) = Closed (Some 0))
       \<and> (\<forall>n. r \<noteq> Inl (ServiceError n))"
  using assms
  by (auto simp: spawn_yt_dlp_def Let_def split: child_exit.splits if_splits)

lemma attempt_try_ok:
  assumes "attempt_try env cfg w url key c tf = (Inr u, w')"
  shows "\<exists>sz. trace w' = trace w @ Spawn (yt_dlp_args w url c tf) #
            map YtDlpLine (stderr_lines (yt_dlp env w (yt_dlp_args w url c tf))) @
            [Upload (BUCKET_NAME cfg) key tf None, VideoDownloadSuccess key c tf sz]"
    and "table w' = table w"
  using assms
  by (auto simp: attempt_try_def dest!: spawn_effect
      split: prod.splits sum.splits option.splits if_splits)

lemma attempt_try_fail:
  assumes "attempt_try env cfg w url key c tf = (Inl e, w')"
  shows "trace w' = trace w @ Spawn (yt_dlp_args w url c tf) #
            map YtDlpLine (stderr_lines (yt_dlp env w (yt_dlp_args w url c tf))) @
            (case e of ServiceError n \<Rightarrow> [Upload (BUCKET_NAME cfg) key tf (Some n)] | _ \<Rightarrow> [])"
    and "table w' = table w"
  using assms
  by (auto simp: attempt_try_def dest!: spawn_effect
      split: prod.splits sum.splits option.splits if_splits error.splits)

text \<open>
  C8. However one download attempt ends (upload done, subprocess failed, output missing or
  empty, upload rejected), its temporary file, named after the clock right after the cookie
  check, does not exist afterwards.
\<close>

theorem temp_file_removed_on_every_path:
  "files (snd (attemptDownload env cfg w videoUrl key playerClient))
     (tempFile_at (now (ensureCookieFileIfConfigured env cfg w))) = None"
  by (simp add: attemptDownload_def Let_def split: prod.splits sum.splits)

section \<open>The strategy loop\<close>

lemma client_of_args [simp]: "drop 22 (yt_dlp_args w url c tf ! 10) = c"
  by (simp add: yt_dlp_args_def js_def)

lemma filter_lines [simp]:
  "filter is_spawn (map YtDlpLine ls) = []" "filter is_upload (map YtDlpLine ls) = []"
  "filter is_stored (map YtDlpLine ls) = []" "list_all fetch_event (map YtDlpLine ls)"
  by (induction ls) simp_all

lemma strategy_step_ok:
  assumes "strategy_step env cfg w url key c = (Inr u, w')"
  shows "\<exists>evs sz. trace w' = trace w @ evs \<and> list_all fetch_event evs
       \<and> map client_of (filter is_spawn evs) = [c]
       \<and> filter is_upload evs = [Upload (BUCKET_NAME cfg) key
             (tempFile_at (now (ensureCookieFileIfConfigured env cfg w))) None]
       \<and> last evs = VideoDownloadSuccess key c
             (tempFile_at (now (ensureCookieFileIfConfigured env cfg w))) sz
       \<and> table w' = table w"
proof -
  obtain cevs where c: "trace (ensureCookieFileIfConfigured env cfg w) = trace w @ cevs"
    "list_all fetch_event cevs" "filter is_spawn cevs = []" "filter is_upload cevs = []"
    using cookie_effect by blast
  let ?w0 = "ensureCookieFileIfConfigured env cfg w"
  let ?tf = "tempFile_at (now ?w0)"
  from assms obtain w1 where a: "attempt_try env cfg ?w0 url key c ?tf = (Inr u, w1)"
    and w': "trace w' = trace w1" "table w' = table w1"
    by (auto simp: strategy_step_def attemptDownload_def Let_def
        split: prod.splits sum.splits if_splits)
  from attempt_try_ok [OF a] c w' show ?thesis
    by auto
qed

lemma strategy_step_fail:
  assumes "strategy_step env cfg w url key c = (Inl e, w')"
  shows "\<exists>evs. trace w' = trace w @ evs \<and> list_all fetch_event evs
       \<and> map client_of (filter is_spawn evs) = [c]
       \<and> filter is_upload evs =
           (case e of ServiceError n \<Rightarrow> [Upload (BUCKET_NAME cfg) key
               (tempFile_at (now (ensureCookieFileIfConfigured env cfg w))) (Some n)] | _ \<Rightarrow> [])
       \<and> filter is_stored evs = []
       \<and> last evs = DownloadFailedWith c e
       \<and> table w' = table w"
proof -
  obtain cevs where c: "trace (ensureCookieFileIfConfigured env cfg w) = trace w @ cevs"
    "list_all fetch_event cevs" "filter is_spawn cevs = []" "filter is_upload cevs = []"
    using cookie_effect by blast
  have st: "filter is_stored cevs = []"
    using c(4) by (induction cevs) (auto split: if_splits elim: is_stored.elims)
  let ?w0 = "ensureCookieFileIfConfigured env cfg w"
  let ?tf = "tempFile_at (now ?w0)"
  from assms obtain w1 where a: "attempt_try env cfg ?w0 url key c ?tf = (Inl e, w1)"
    and w': "trace w' = trace w1 @ [VideoDownloadFailed url c key e, DownloadFailedWith c e]"
      "table w' = table w1"
    by (auto simp: strategy_step_def attemptDownload_def Let_def
        split: prod.splits sum.splits if_splits)
  from attempt_try_fail [OF a] c st w' show ?thesis
    by (auto split: error.splits)
qed

lemma downloadToS3_unfold:
  "downloadToS3 env cfg w url key =
     (case strategy_step env cfg w url key (js ''ios'') of
        (Inr u, w1) \<Rightarrow> (Inr (), w1)
      | (Inl e1, w1) \<Rightarrow>
     (case strategy_step env cfg w1 url key (js ''ios,web'') of
        (Inr u, w2) \<Rightarrow> (Inr (), w2)
      | (Inl e2, w2) \<Rightarrow>
     (case strategy_step env cfg w2 url key (js ''web'') of
        (Inr u, w3) \<Rightarrow> (Inr (), w3)
      | (Inl e3, w3) \<Rightarrow>
     (case strategy_step env cfg w3 url key (js ''android_creator'') of
        (Inr u, w4) \<Rightarrow> (Inr (), w4)
      | (Inl e4, w4) \<Rightarrow> (Inl e4, w4)))))"
  by (simp add: downloadToS3_def clientStrategies_def js_def split: prod.splits sum.splits)

lemma downloadToS3_cases:
  obtains
    (first) w1 where
      "strategy_step env cfg w url key (js ''ios'') = (Inr (), w1)"
      "downloadToS3 env cfg w url key = (Inr (), w1)"
  | (second) e1 w1 w2 where
      "strategy_step env cfg w url key (js ''ios'') = (Inl e1, w1)"
      "strategy_step env cfg w1 url key (js ''ios,web'') = (Inr (), w2)"
      "downloadToS3 env cfg w url key = (Inr (), w2)"
  | (third) e1 w1 e2 w2 w3 where
      "strategy_step env cfg w url key (js ''ios'') = (Inl e1, w1)"
      "strategy_step env cfg w1 url key (js ''ios,web'') = (Inl e2, w2)"
      "strategy_step env cfg w2 url key (js ''web'') = (Inr (), w3)"
      "downloadToS3 env cfg w url key = (Inr (), w3)"
  | (fourth) e1 w1 e2 w2 e3 w3 w4 where
      "strategy_step env cfg w url key (js ''ios'') = (Inl e1, w1)"
      "strategy_step env cfg w1 url key (js ''ios,web'') = (Inl e2, w2)"
      "strategy_step env cfg w2 url key (js ''web'') = (Inl e3, w3)"
      "strategy_step env cfg w3 url key (js ''android_creator'') = (Inr (), w4)"
      "downloadToS3 env cfg w url key = (Inr (), w4)"
  | (none) e1 w1 e2 w2 e3 w3 e4 w4 where
      "strategy_step env cfg w url key (js ''ios'') = (Inl e1, w1)"
      "strategy_step env cfg w1 url key (js ''ios,web'') = (Inl e2, w2)"
      "strategy_step env cfg w2 url key (js ''web'') = (Inl e3, w3)"
      "strategy_step env cfg w3 url key (js ''android_creator'') = (Inl e4, w4)"
      "downloadToS3 env cfg w url key = (Inl e4, w4)"
  apply atomize_elim
  apply (simp only: downloadToS3_unfold)
  apply (auto split: prod.splits sum.splits)
  done

lemma step_fail_summary:
  assumes "strategy_step env cfg w url key c = (Inl e, w')"
  obtains evs where "trace w' = trace w @ evs" "list_all fetch_event evs"
    "map client_of (filter is_spawn evs) = [c]" "filter is_stored evs = []"
    "(\<forall>n. e \<noteq> ServiceError n) \<longrightarrow> filter is_upload evs = []"
    "table w' = table w"
proof -
  from strategy_step_fail [OF assms] obtain evs where
    evs: "trace w' = trace w @ evs" "list_all fetch_event evs"
      "map client_of (filter is_spawn evs) = [c]" "filter is_stored evs = []"
      "table w' = table w"
    and up: "filter is_upload evs =
           (case e of ServiceError n \<Rightarrow> [Upload (BUCKET_NAME cfg) key
               (tempFile_at (now (ensureCookieFileIfConfigured env cfg w))) (Some n)] | _ \<Rightarrow> [])"
    by (elim exE conjE)
  from up have u: "(\<forall>n. e \<noteq> ServiceError n) \<longrightarrow> filter is_upload evs = []"
    by (cases e) simp_all
  show ?thesis
    by (rule that [OF evs(1) evs(2) evs(3) evs(4) u evs(5)])
qed

lemma step_ok_summary:
  assumes "strategy_step env cfg w url key c = (Inr u, w')"
  obtains evs sz where "trace w' = trace w @ evs" "list_all fetch_event evs"
    "map client_of (filter is_spawn evs) = [c]"
    "filter is_stored evs = [Upload (BUCKET_NAME cfg) key
             (tempFile_at (now (ensureCookieFileIfConfigured env cfg w))) None]"
    "last (trace w') = VideoDownloadSuccess key c
             (tempFile_at (now (ensureCookieFileIfConfigured env cfg w))) sz"
    "table w' = table w"
proof -
  from strategy_step_ok [OF assms] obtain evs sz where
    evs: "trace w' = trace w @ evs" "list_all fetch_event evs"
      "map client_of (filter is_spawn evs) = [c]"
      "filter is_upload evs = [Upload (BUCKET_NAME cfg) key
             (tempFile_at (now (ensureCookieFileIfConfigured env cfg w))) None]"
      "last evs = VideoDownloadSuccess key c
             (tempFile_at (now (ensureCookieFileIfConfigured env cfg w))) sz"
      "table w' = table w"
    by (elim exE conjE)
  have "filter is_stored evs = filter is_stored (filter is_upload evs)"
    by (induction evs) (auto elim: is_stored.elims)
  with evs(4) have st: "filter is_stored evs = [Upload (BUCKET_NAME cfg) key
             (tempFile_at (now (ensureCookieFileIfConfigured env cfg w))) None]"
    by simp
  from evs(3) have "evs \<noteq> []" by auto
  with evs(1,5) have l: "last (trace w') = VideoDownloadSuccess key c
             (tempFile_at (now (ensureCookieFileIfConfigured env cfg w))) sz"
    by simp
  show ?thesis
    by (rule that [OF evs(1) evs(2) evs(3) st l evs(6)])
qed

lemma three_failures:
  assumes "strategy_step env cfg w url key (js ''ios'') = (Inl e1, w1)"
    and "strategy_step env cfg w1 url key (js ''ios,web'') = (Inl e2, w2)"
    and "strategy_step env cfg w2 url key (js ''web'') = (Inl e3, w3)"
  obtains evs where "trace w3 = trace w @ evs" "list_all fetch_event evs"
    "map client_of (filter is_spawn evs) = [js ''ios'', js ''ios,web'', js ''web'']"
    "filter is_stored evs = []"
    "(\<forall>n. e1 \<noteq> ServiceError n \<and> e2 \<noteq> ServiceError n \<and> e3 \<noteq> ServiceError n)
       \<longrightarrow> filter is_upload evs = []"
    "table w3 = table w"
proof -
  from assms(1) obtain a1 where a1: "trace w1 = trace w @ a1" "list_all fetch_event a1"
    "map client_of (filter is_spawn a1) = [js ''ios'']" "filter is_stored a1 = []"
    "(\<forall>n. e1 \<noteq> ServiceError n) \<longrightarrow> filter is_upload a1 = []" "table w1 = table w"
    by (rule step_fail_summary)
  from assms(2) obtain a2 where a2: "trace w2 = trace w1 @ a2" "list_all fetch_event a2"
    "map client_of (filter is_spawn a2) = [js ''ios,web'']" "filter is_stored a2 = []"
    "(\<forall>n. e2 \<noteq> ServiceError n) \<longrightarrow> filter is_upload a2 = []" "table w2 = table w1"
    by (rule step_fail_summary)
  from assms(3) obtain a3 where a3: "trace w3 = trace w2 @ a3" "list_all fetch_event a3"
    "map client_of (filter is_spawn a3) = [js ''web'']" "filter is_stored a3 = []"
    "(\<forall>n. e3 \<noteq> ServiceError n) \<longrightarrow> filter is_upload a3 = []" "table w3 = table w2"
    by (rule step_fail_summary)
  show ?thesis
    by (rule that [of "a1 @ a2 @ a3"]) (use a1 a2 a3 in simp_all)
qed

lemma fetch_order:
  "\<exists>n. 1 \<le> n \<and> n \<le> 4
     \<and> map client_of (filter is_spawn
          (new_events w (snd (downloadToS3 env cfg w url key)))) = take n clientStrategies
     \<and> (n < 4 \<longrightarrow> fst (downloadToS3 env cfg w url key) = Inr ())
     \<and> (fst (downloadToS3 env cfg w url key) = Inr () \<longrightarrow>
          (\<exists>tf sz. filter is_stored (new_events w (snd (downloadToS3 env cfg w url key)))
                     = [Upload (BUCKET_NAME cfg) key tf None]
                 \<and> last (trace (snd (downloadToS3 env cfg w url key)))
                     = VideoDownloadSuccess key (clientStrategies ! (n - 1)) tf sz))
     \<and> (fst (downloadToS3 env cfg w url key) \<noteq> Inr () \<longrightarrow>
          filter is_stored (new_events w (snd (downloadToS3 env cfg w url key))) = [])"
  (is "\<exists>n. ?P n")
proof (cases rule: downloadToS3_cases [of env cfg w url key])
  case (first w1)
  from first(1) obtain a sz where a: "trace w1 = trace w @ a"
    "map client_of (filter is_spawn a) = [js ''ios'']"
    "filter is_stored a = [Upload (BUCKET_NAME cfg) key
             (tempFile_at (now (ensureCookieFileIfConfigured env cfg w))) None]"
    "last (trace w1) = VideoDownloadSuccess key (js ''ios'')
             (tempFile_at (now (ensureCookieFileIfConfigured env cfg w))) sz"
    by (rule step_ok_summary)
  have "?P 1"
    using a first(2) by (simp add: clientStrategies_def)
  then show ?thesis ..
next
  case (second e1 w1 w2)
  from second(1) obtain a1 where a1: "trace w1 = trace w @ a1"
    "map client_of (filter is_spawn a1) = [js ''ios'']" "filter is_stored a1 = []"
    by (rule step_fail_summary)
  from second(2) obtain a sz where a: "trace w2 = trace w1 @ a"
    "map client_of (filter is_spawn a) = [js ''ios,web'']"
    "filter is_stored a = [Upload (BUCKET_NAME cfg) key
             (tempFile_at (now (ensureCookieFileIfConfigured env cfg w1))) None]"
    "last (trace w2) = VideoDownloadSuccess key (js ''ios,web'')
             (tempFile_at (now (ensureCookieFileIfConfigured env cfg w1))) sz"
    by (rule step_ok_summary)
  have t: "trace w2 = trace w @ (a1 @ a)" using a1 a by simp
  have "?P 2"
    using a1 a second(3) new_events_append [OF t]
    by (simp add: clientStrategies_def del: new_events_append)
  then show ?thesis ..
next
  case (third e1 w1 e2 w2 w3)
  from third(1) obtain a1 where a1: "trace w1 = trace w @ a1"
    "map client_of (filter is_spawn a1) = [js ''ios'']" "filter is_stored a1 = []"
    by (rule step_fail_summary)
  from third(2) obtain a2 where a2: "trace w2 = trace w1 @ a2"
    "map client_of (filter is_spawn a2) = [js ''ios,web'']" "filter is_stored a2 = []"
    by (rule step_fail_summary)
  from third(3) obtain a sz where a: "trace w3 = trace w2 @ a"
    "map client_of (filter is_spawn a) = [js ''web'']"
    "filter is_stored a = [Upload (BUCKET_NAME cfg) key
             (tempFile_at (now (ensureCookieFileIfConfigured env cfg w2))) None]"
    "last (trace w3) = VideoDownloadSuccess key (js ''web'')
             (tempFile_at (now (ensureCookieFileIfConfigured env cfg w2))) sz"
    by (rule step_ok_summary)
  have t: "trace w3 = trace w @ (a1 @ a2 @ a)" using a1 a2 a by simp
  have "?P 3"
    using a1 a2 a third(4) new_events_append [OF t]
    by (simp add: clientStrategies_def del: new_events_append)
  then show ?thesis ..
next
  case (fourth e1 w1 e2 w2 e3 w3 w4)
  from fourth(1,2,3) obtain a3 where a3: "trace w3 = trace w @ a3"
    "map client_of (filter is_spawn a3) = [js ''ios'', js ''ios,web'', js ''web'']"
    "filter is_stored a3 = []"
    by (rule three_failures)
  from fourth(4) obtain a sz where a: "trace w4 = trace w3 @ a"
    "map client_of (filter is_spawn a) = [js ''android_creator'']"
    "filter is_stored a = [Upload (BUCKET_NAME cfg) key
             (tempFile_at (now (ensureCookieFileIfConfigured env cfg w3))) None]"
    "last (trace w4) = VideoDownloadSuccess key (js ''android_creator'')
             (tempFile_at (now (ensureCookieFileIfConfigured env cfg w3))) sz"
    by (rule step_ok_summary)
  have t: "trace w4 = trace w @ (a3 @ a)" using a3 a by simp
  have "?P 4"
    using a3 a fourth(5) new_events_append [OF t]
    by (simp add: clientStrategies_def del: new_events_append)
  then show ?thesis ..
next
  case (none e1 w1 e2 w2 e3 w3 e4 w4)
  from none(1,2,3) obtain a3 where a3: "trace w3 = trace w @ a3"
    "map client_of (filter is_spawn a3) = [js ''ios'', js ''ios,web'', js ''web'']"
    "filter is_stored a3 = []"
    by (rule three_failures)
  from none(4) obtain a where a: "trace w4 = trace w3 @ a"
    "map client_of (filter is_spawn a) = [js ''android_creator'']" "filter is_stored a = []"
    by (rule step_fail_summary)
  have t: "trace w4 = trace w @ (a3 @ a)" using a3 a by simp
  have "?P 4"
    using a3 a none(5) new_events_append [OF t]
    by (simp add: clientStrategies_def del: new_events_append)
  then show ?thesis ..
qed

subsection \<open>The scripted environment\<close>

lemma scripted_simps [simp]:
  "JSON_parse (scripted script conc) = parse0"
  "elapsed (scripted script conc) w = 1"
  "get_object (scripted script conc) w b k = GetOk 2048"
  "upload_fault (scripted script conc) w b k = None"
  "ddb_get_fault (scripted script conc) w vid = None"
  "ddb_put_fault (scripted script conc) w it = None"
  "others (scripted script conc) w = conc"
  "metric_fault (scripted script conc) w name = None"
  by (simp_all add: scripted_def)

lemma scripted_child:
  "yt_dlp (scripted script conc) w (yt_dlp_args w' url c tf) =
     \<lparr>stderr_lines = [],
      outcome = Closed (Some (fst (script (js ''youtube:player_client='' @ c)))),
      files_after =
        (case snd (script (js ''youtube:player_client='' @ c)) of
           None \<Rightarrow> files w
         | Some n \<Rightarrow> (files w)(tf \<mapsto> \<lparr>st_size = n, st_mtimeMs = of_nat (now w), st_mode = 420\<rparr>))\<rparr>"
  by (simp add: scripted_def yt_dlp_args_def split: option.splits)

lemma scripted_step_fail:
  assumes "script (js ''youtube:player_client='' @ c) = (code, out)" and "code \<noteq> 0"
  shows "fst (strategy_step (scripted script conc) cfg w url key c) = Inl (ExitCode (Some code))"
  using assms
  by (simp add: strategy_step_def attemptDownload_def attempt_try_def spawn_yt_dlp_def
      scripted_child Let_def split: prod.splits)

lemma scripted_step_ok:
  assumes "script (js ''youtube:player_client='' @ c) = (0, Some n)" and "0 < n"
  shows "fst (strategy_step (scripted script conc) cfg w url key c) = Inr ()"
  using assms
  by (simp add: strategy_step_def attemptDownload_def attempt_try_def spawn_yt_dlp_def
      scripted_child Let_def split: prod.splits)

subsection \<open>Fallback through the strategies\<close>

text \<open>
  C4. \<open>downloadToS3\<close> spawns one subprocess per attempt, for a non-empty prefix of the
  four strategies \<open>ios\<close>, \<open>ios,web\<close>, \<open>web\<close>, \<open>android_creator\<close> in this order; it stops
  before the fourth only on success, a success stores exactly one upload and ends with the
  success banner of the last strategy spawned, and a failure stores none. In particular, when
  the first three strategies fail and the fourth succeeds, the four subprocesses are spawned
  in the fixed order, nothing is stored during the first three attempts, and the one stored
  upload streams the temporary file of the fourth attempt, whose banner names
  \<open>android_creator\<close>.
\<close>

theorem strategy_fallback:
  "(\<exists>n. 1 \<le> n \<and> n \<le> 4
     \<and> map client_of (filter is_spawn
          (new_events w (snd (downloadToS3 env cfg w url key)))) = take n clientStrategies
     \<and> (n < 4 \<longrightarrow> fst (downloadToS3 env cfg w url key) = Inr ())
     \<and> (fst (downloadToS3 env cfg w url key) = Inr () \<longrightarrow>
          (\<exists>tf sz. filter is_stored (new_events w (snd (downloadToS3 env cfg w url key)))
                     = [Upload (BUCKET_NAME cfg) key tf None]
                 \<and> last (trace (snd (downloadToS3 env cfg w url key)))
                     = VideoDownloadSuccess key (clientStrategies ! (n - 1)) tf sz))
     \<and> (fst (downloadToS3 env cfg w url key) \<noteq> Inr () \<longrightarrow>
          filter is_stored (new_events w (snd (downloadToS3 env cfg w url key))) = []))
   \<and> (strategy_step env cfg w url key (js ''ios'') = (Inl e1, w1)
      \<and> strategy_step env cfg w1 url key (js ''ios,web'') = (Inl e2, w2)
      \<and> strategy_step env cfg w2 url key (js ''web'') = (Inl e3, w3)
      \<and> strategy_step env cfg w3 url key (js ''android_creator'') = (Inr (), w4)
      \<longrightarrow> downloadToS3 env cfg w url key = (Inr (), w4)
        \<and> map client_of (filter is_spawn (new_events w w4))
            = [js ''ios'', js ''ios,web'', js ''web'', js ''android_creator'']
        \<and> filter is_stored (new_events w w3) = []
        \<and> filter is_stored (new_events w w4)
            = [Upload (BUCKET_NAME cfg) key
                 (tempFile_at (now (ensureCookieFileIfConfigured env cfg w3))) None]
        \<and> (\<exists>sz. last (trace w4)
            = VideoDownloadSuccess key (js ''android_creator'')
                 (tempFile_at (now (ensureCookieFileIfConfigured env cfg w3))) sz))"
proof (intro conjI impI)
  show "\<exists>n. 1 \<le> n \<and> n \<le> 4
     \<and> map client_of (filter is_spawn
          (new_events w (snd (downloadToS3 env cfg w url key)))) = take n clientStrategies
     \<and> (n < 4 \<longrightarrow> fst (downloadToS3 env cfg w url key) = Inr ())
     \<and> (fst (downloadToS3 env cfg w url key) = Inr () \<longrightarrow>
          (\<exists>tf sz. filter is_stored (new_events w (snd (downloadToS3 env cfg w url key)))
                     = [Upload (BUCKET_NAME cfg) key tf None]
                 \<and> last (trace (snd (downloadToS3 env cfg w url key)))
                     = VideoDownloadSuccess key (clientStrategies ! (n - 1)) tf sz))
     \<and> (fst (downloadToS3 env cfg w url key) \<noteq> Inr () \<longrightarrow>
          filter is_stored (new_events w (snd (downloadToS3 env cfg w url key))) = [])"
    by (rule fetch_order)
next
  assume h: "strategy_step env cfg w url key (js ''ios'') = (Inl e1, w1)
      \<and> strategy_step env cfg w1 url key (js ''ios,web'') = (Inl e2, w2)
      \<and> strategy_step env cfg w2 url key (js ''web'') = (Inl e3, w3)
      \<and> strategy_step env cfg w3 url key (js ''android_creator'') = (Inr (), w4)"
  then have s: "strategy_step env cfg w url key (js ''ios'') = (Inl e1, w1)"
    "strategy_step env cfg w1 url key (js ''ios,web'') = (Inl e2, w2)"
    "strategy_step env cfg w2 url key (js ''web'') = (Inl e3, w3)"
    "strategy_step env cfg w3 url key (js ''android_creator'') = (Inr (), w4)"
    by simp_all
  from s(1,2,3) obtain a3 where a3: "trace w3 = trace w @ a3"
    "map client_of (filter is_spawn a3) = [js ''ios'', js ''ios,web'', js ''web'']"
    "filter is_stored a3 = []"
    by (rule three_failures)
  from s(4) obtain a sz where a: "trace w4 = trace w3 @ a"
    "map client_of (filter is_spawn a) = [js ''android_creator'']"
    "filter is_stored a = [Upload (BUCKET_NAME cfg) key
             (tempFile_at (now (ensureCookieFileIfConfigured env cfg w3))) None]"
    "last (trace w4) = VideoDownloadSuccess key (js ''android_creator'')
             (tempFile_at (now (ensureCookieFileIfConfigured env cfg w3))) sz"
    by (rule step_ok_summary)
  have t: "trace w4 = trace w @ (a3 @ a)" using a3 a by simp
  show "downloadToS3 env cfg w url key = (Inr (), w4)"
    using s by (simp add: downloadToS3_unfold)
  show "map client_of (filter is_spawn (new_events w w4))
            = [js ''ios'', js ''ios,web'', js ''web'', js ''android_creator'']"
    using a3 a new_events_append [OF t] by (simp del: new_events_append)
  show "filter is_stored (new_events w w3) = []"
    using a3 by simp
  show "filter is_stored (new_events w w4)
            = [Upload (BUCKET_NAME cfg) key
                 (tempFile_at (now (ensureCookieFileIfConfigured env cfg w3))) None]"
    using a3 a new_events_append [OF t] by (simp del: new_events_append)
  show "\<exists>sz. last (trace w4)
            = VideoDownloadSuccess key (js ''android_creator'')
                 (tempFile_at (now (ensureCookieFileIfConfigured env cfg w3))) sz"
    using a(4) by blast
qed

text \<open>A run in which only \<open>android_creator\<close> gets the video.\<close>

theorem strategy_fallback_witness:
  "strategy_step (scripted only_android_creator Map.empty) cfg0 world0
       (videoUrl_of (js ''abc'')) (s3Key_of (js ''My video'') (js ''abc'')) (js ''ios'')
     = (Inl (ExitCode (Some 1)),
        after_steps (scripted only_android_creator Map.empty) cfg0 world0
          (videoUrl_of (js ''abc'')) (s3Key_of (js ''My video'') (js ''abc'')) [js ''ios''])
   \<and> fst (strategy_step (scripted only_android_creator Map.empty) cfg0
       (after_steps (scripted only_android_creator Map.empty) cfg0 world0
          (videoUrl_of (js ''abc'')) (s3Key_of (js ''My video'') (js ''abc'')) [js ''ios''])
       (videoUrl_of (js ''abc'')) (s3Key_of (js ''My video'') (js ''abc'')) (js ''ios,web''))
     = Inl (ExitCode (Some 1))
   \<and> fst (strategy_step (scripted only_android_creator Map.empty) cfg0
       (after_steps (scripted only_android_creator Map.empty) cfg0 world0
          (videoUrl_of (js ''abc'')) (s3Key_of (js ''My video'') (js ''abc''))
          [js ''ios'', js ''ios,web''])
       (videoUrl_of (js ''abc'')) (s3Key_of (js ''My video'') (js ''abc'')) (js ''web''))
     = Inl (ExitCode (Some 1))
   \<and> fst (strategy_step (scripted only_android_creator Map.empty) cfg0
       (after_steps (scripted only_android_creator Map.empty) cfg0 world0
          (videoUrl_of (js ''abc'')) (s3Key_of (js ''My video'') (js ''abc''))
          [js ''ios'', js ''ios,web'', js ''web''])
       (videoUrl_of (js ''abc'')) (s3Key_of (js ''My video'') (js ''abc''))
       (js ''android_creator''))
     = Inr ()
   \<and> fst (downloadToS3 (scripted only_android_creator Map.empty) cfg0 world0
       (videoUrl_of (js ''abc'')) (s3Key_of (js ''My video'') (js ''abc''))) = Inr ()
   \<and> map client_of (filter is_spawn (new_events world0
        (after_steps (scripted only_android_creator Map.empty) cfg0 world0
          (videoUrl_of (js ''abc'')) (s3Key_of (js ''My video'') (js ''abc''))
          [js ''ios'', js ''ios,web'', js ''web'', js ''android_creator''])))
       = [js ''ios'', js ''ios,web'', js ''web'', js ''android_creator'']
   \<and> length (filter is_stored (new_events world0
        (after_steps (scripted only_android_creator Map.empty) cfg0 world0
          (videoUrl_of (js ''abc'')) (s3Key_of (js ''My video'') (js ''abc''))
          [js ''ios'', js ''ios,web'', js ''web'', js ''android_creator'']))) = 1"
proof -
  let ?E = "scripted only_android_creator Map.empty"
  let ?url = "videoUrl_of (js ''abc'')"
  let ?key = "s3Key_of (js ''My video'') (js ''abc'')"
  let ?after = "after_steps ?E cfg0 world0 ?url ?key"
  have f: "only_android_creator (js ''youtube:player_client='' @ js ''ios'') = (1, None)"
    "only_android_creator (js ''youtube:player_client='' @ js ''ios,web'') = (1, None)"
    "only_android_creator (js ''youtube:player_client='' @ js ''web'') = (1, None)"
    by (simp_all add: only_android_creator_def js_def)
  have g: "only_android_creator (js ''youtube:player_client='' @ js ''android_creator'')
      = (0, Some 1024)"
    by (simp add: only_android_creator_def js_def)
  have s1: "fst (strategy_step ?E cfg0 world0 ?url ?key (js ''ios'')) = Inl (ExitCode (Some 1))"
    by (rule scripted_step_fail [where script = only_android_creator, OF f(1)]) simp
  have s2: "fst (strategy_step ?E cfg0 (?after [js ''ios'']) ?url ?key (js ''ios,web''))
      = Inl (ExitCode (Some 1))"
    by (rule scripted_step_fail [where script = only_android_creator, OF f(2)]) simp
  have s3: "fst (strategy_step ?E cfg0 (?after [js ''ios'', js ''ios,web'']) ?url ?key (js ''web''))
      = Inl (ExitCode (Some 1))"
    by (rule scripted_step_fail [where script = only_android_creator, OF f(3)]) simp
  have s4: "fst (strategy_step ?E cfg0 (?after [js ''ios'', js ''ios,web'', js ''web''])
      ?url ?key (js ''android_creator'')) = Inr ()"
    by (rule scripted_step_ok [where script = only_android_creator, OF g]) simp
  have e1: "strategy_step ?E cfg0 world0 ?url ?key (js ''ios'')
      = (Inl (ExitCode (Some 1)), ?after [js ''ios''])"
    using s1 by (simp add: prod_eq_iff)
  have e2: "strategy_step ?E cfg0 (?after [js ''ios'']) ?url ?key (js ''ios,web'')
      = (Inl (ExitCode (Some 1)), ?after [js ''ios'', js ''ios,web''])"
    using s2 by (simp add: prod_eq_iff)
  have e3: "strategy_step ?E cfg0 (?after [js ''ios'', js ''ios,web'']) ?url ?key (js ''web'')
      = (Inl (ExitCode (Some 1)), ?after [js ''ios'', js ''ios,web'', js ''web''])"
    using s3 by (simp add: prod_eq_iff)
  have e4: "strategy_step ?E cfg0 (?after [js ''ios'', js ''ios,web'', js ''web''])
      ?url ?key (js ''android_creator'')
      = (Inr (), ?after [js ''ios'', js ''ios,web'', js ''web'', js ''android_creator''])"
    using s4 by (simp add: prod_eq_iff)
  from strategy_fallback [where w = world0 and env = ?E and cfg = cfg0 and url = ?url
      and key = ?key and ?e1.0 = "ExitCode (Some 1)" and ?w1.0 = "?after [js ''ios'']"
      and ?e2.0 = "ExitCode (Some 1)" and ?w2.0 = "?after [js ''ios'', js ''ios,web'']"
      and ?e3.0 = "ExitCode (Some 1)" and ?w3.0 = "?after [js ''ios'', js ''ios,web'', js ''web'']"
      and ?w4.0 = "?after [js ''ios'', js ''ios,web'', js ''web'', js ''android_creator'']"]
    e1 e2 e3 e4
  have c: "downloadToS3 ?E cfg0 world0 ?url ?key
        = (Inr (), ?after [js ''ios'', js ''ios,web'', js ''web'', js ''android_creator''])"
    "map client_of (filter is_spawn (new_events world0
        (?after [js ''ios'', js ''ios,web'', js ''web'', js ''android_creator''])))
       = [js ''ios'', js ''ios,web'', js ''web'', js ''android_creator'']"
    "filter is_stored (new_events world0
        (?after [js ''ios'', js ''ios,web'', js ''web'', js ''android_creator'']))
       = [Upload (BUCKET_NAME cfg0) ?key
                 (tempFile_at (now (ensureCookieFileIfConfigured ?E cfg0
                    (?after [js ''ios'', js ''ios,web'', js ''web''])))) None]"
    by blast+
  show ?thesis
    using e1 s2 s3 s4 c by simp
qed

section \<open>The handler\<close>

lemma get_prop_truthy: "get_prop b k = Some v \<Longrightarrow> truthy b"
  by (cases b) simp_all

lemma recordMetric_ok:
  "metric_fault env w name = None \<Longrightarrow>
     recordMetric env w name v u = (Inr (), await env (emit (PutMetricData name v u) w))"
  by (simp add: recordMetric_def Let_def)

lemma try_block_string_id:
  assumes "JSON_parse env (body r) = Some b"
    and "get_prop b (js ''videoId'') = Some (JStr vid)" and "vid \<noteq> []"
  shows "try_block env cfg w r =
     (case ddb_get env cfg w vid of
        (Inl err, w1) \<Rightarrow> (Inl (err, JStr vid), w1)
      | (Inr (Some existing), w1) \<Rightarrow> (Inr Continue, emit (SkippingAlreadyDownloaded vid) w1)
      | (Inr None, w1) \<Rightarrow>
          (case process_video env cfg w1 vid (get_prop b (js ''title'')) of
             (Inl err, w2) \<Rightarrow> (Inl (err, JStr vid), w2)
           | (Inr c, w2) \<Rightarrow> (Inr c, w2)))"
  using assms get_prop_truthy [OF assms(2)]
  by (simp add: try_block_def)

lemma try_block_invalid:
  assumes "JSON_parse env (body r) = Some b" and "get_prop b (js ''videoId'') = None"
  shows "try_block env cfg w r = (Inr Return, emit (InvalidMessage (messageId r) (body r)) w)"
  using assms by (simp add: try_block_def)

lemma invalid_message_returns:
  assumes "JSON_parse env (body r) = Some b" and "get_prop b (js ''videoId'') = None"
  shows "for_records env cfg w (r # rest) =
           (Inr (), emit (InvalidMessage (messageId r) (body r)) w)"
  using try_block_invalid [OF assms] by (simp add: iteration_def)

lemma ddb_get_unfold:
  "ddb_get env cfg w vid =
     (case ddb_get_fault env w vid of
        Some n \<Rightarrow> Inl (ServiceError n)
      | None \<Rightarrow> Inr (table w vid),
      await env (emit (DdbGet (TABLE_NAME cfg) (JStr vid)) w))"
  by (simp add: ddb_get_def Let_def split: option.splits)


lemma iteration_catch:
  assumes "try_block env cfg w r = (Inl (err, v), w1)"
  shows "iteration env cfg w r =
     (case metric_fault env w1 ''DownloadFailures'' of
        None \<Rightarrow>
          (Inr Normal,
           emit (DownloadError (if truthy v then v else JStr (js ''(unknown)''))
                   (messageId r) (body r) err)
             (await env (emit (PutMetricData ''DownloadFailures'' 1 Count) w1)))
      | Some n \<Rightarrow>
          (Inl (ServiceError n),
           await env (emit (PutMetricData ''DownloadFailures'' 1 Count) w1)))"
  using assms by (simp add: iteration_def recordMetric_def Let_def split: option.splits)



lemma fetch_effect:
  "\<exists>evs. trace (snd (downloadToS3 env cfg w url key)) = trace w @ evs
      \<and> list_all fetch_event evs
      \<and> table (snd (downloadToS3 env cfg w url key)) = table w"
proof (cases rule: downloadToS3_cases [of env cfg w url key])
  case (first w1)
  from first(1) obtain a sz where "trace w1 = trace w @ a" "list_all fetch_event a"
    "map client_of (filter is_spawn a) = [js ''ios'']"
    "filter is_stored a = [Upload (BUCKET_NAME cfg) key
             (tempFile_at (now (ensureCookieFileIfConfigured env cfg w))) None]"
    "last (trace w1) = VideoDownloadSuccess key (js ''ios'')
             (tempFile_at (now (ensureCookieFileIfConfigured env cfg w))) sz"
    "table w1 = table w"
    by (rule step_ok_summary)
  then show ?thesis using first(2) by simp
next
  case (second e1 w1 w2)
  from second(1) obtain a1 where a1: "trace w1 = trace w @ a1" "list_all fetch_event a1"
    "map client_of (filter is_spawn a1) = [js ''ios'']" "filter is_stored a1 = []"
    "(\<forall>n. e1 \<noteq> ServiceError n) \<longrightarrow> filter is_upload a1 = []" "table w1 = table w"
    by (rule step_fail_summary)
  from second(2) obtain a sz where a: "trace w2 = trace w1 @ a" "list_all fetch_event a"
    "map client_of (filter is_spawn a) = [js ''ios,web'']"
    "filter is_stored a = [Upload (BUCKET_NAME cfg) key
             (tempFile_at (now (ensureCookieFileIfConfigured env cfg w1))) None]"
    "last (trace w2) = VideoDownloadSuccess key (js ''ios,web'')
             (tempFile_at (now (ensureCookieFileIfConfigured env cfg w1))) sz"
    "table w2 = table w1"
    by (rule step_ok_summary)
  have "trace w2 = trace w @ (a1 @ a)" "list_all fetch_event (a1 @ a)" "table w2 = table w"
    using a1 a by simp_all
  then show ?thesis using second(3) by (metis snd_conv)
next
  case (third e1 w1 e2 w2 w3)
  from third(1) obtain a1 where a1: "trace w1 = trace w @ a1" "list_all fetch_event a1"
    "map client_of (filter is_spawn a1) = [js ''ios'']" "filter is_stored a1 = []"
    "(\<forall>n. e1 \<noteq> ServiceError n) \<longrightarrow> filter is_upload a1 = []" "table w1 = table w"
    by (rule step_fail_summary)
  from third(2) obtain a2 where a2: "trace w2 = trace w1 @ a2" "list_all fetch_event a2"
    "map client_of (filter is_spawn a2) = [js ''ios,web'']" "filter is_stored a2 = []"
    "(\<forall>n. e2 \<noteq> ServiceError n) \<longrightarrow> filter is_upload a2 = []" "table w2 = table w1"
    by (rule step_fail_summary)
  from third(3) obtain a sz where a: "trace w3 = trace w2 @ a" "list_all fetch_event a"
    "map client_of (filter is_spawn a) = [js ''web'']"
    "filter is_stored a = [Upload (BUCKET_NAME cfg) key
             (tempFile_at (now (ensureCookieFileIfConfigured env cfg w2))) None]"
    "last (trace w3) = VideoDownloadSuccess key (js ''web'')
             (tempFile_at (now (ensureCookieFileIfConfigured env cfg w2))) sz"
    "table w3 = table w2"
    by (rule step_ok_summary)
  have "trace w3 = trace w @ (a1 @ a2 @ a)" "list_all fetch_event (a1 @ a2 @ a)"
    "table w3 = table w"
    using a1 a2 a by simp_all
  then show ?thesis using third(4) by (metis snd_conv)
next
  case (fourth e1 w1 e2 w2 e3 w3 w4)
  from fourth(1,2,3) obtain a3 where a3: "trace w3 = trace w @ a3" "list_all fetch_event a3"
    "map client_of (filter is_spawn a3) = [js ''ios'', js ''ios,web'', js ''web'']"
    "filter is_stored a3 = []"
    "(\<forall>n. e1 \<noteq> ServiceError n \<and> e2 \<noteq> ServiceError n \<and> e3 \<noteq> ServiceError n)
       \<longrightarrow> filter is_upload a3 = []"
    "table w3 = table w"
    by (rule three_failures)
  from fourth(4) obtain a sz where a: "trace w4 = trace w3 @ a" "list_all fetch_event a"
    "map client_of (filter is_spawn a) = [js ''android_creator'']"
    "filter is_stored a = [Upload (BUCKET_NAME cfg) key
             (tempFile_at (now (ensureCookieFileIfConfigured env cfg w3))) None]"
    "last (trace w4) = VideoDownloadSuccess key (js ''android_creator'')
             (tempFile_at (now (ensureCookieFileIfConfigured env cfg w3))) sz"
    "table w4 = table w3"
    by (rule step_ok_summary)
  have "trace w4 = trace w @ (a3 @ a)" "list_all fetch_event (a3 @ a)" "table w4 = table w"
    using a3 a by simp_all
  then show ?thesis using fourth(5) by (metis snd_conv)
next
  case (none e1 w1 e2 w2 e3 w3 e4 w4)
  from none(1,2,3) obtain a3 where a3: "trace w3 = trace w @ a3" "list_all fetch_event a3"
    "map client_of (filter is_spawn a3) = [js ''ios'', js ''ios,web'', js ''web'']"
    "filter is_stored a3 = []"
    "(\<forall>n. e1 \<noteq> ServiceError n \<and> e2 \<noteq> ServiceError n \<and> e3 \<noteq> ServiceError n)
       \<longrightarrow> filter is_upload a3 = []"
    "table w3 = table w"
    by (rule three_failures)
  from none(4) obtain a where a: "trace w4 = trace w3 @ a" "list_all fetch_event a"
    "map client_of (filter is_spawn a) = [js ''android_creator'']" "filter is_stored a = []"
    "(\<forall>n. e4 \<noteq> ServiceError n) \<longrightarrow> filter is_upload a = []" "table w4 = table w3"
    by (rule step_fail_summary)
  have "trace w4 = trace w @ (a3 @ a)" "list_all fetch_event (a3 @ a)" "table w4 = table w"
    using a3 a by simp_all
  then show ?thesis using none(5) by (metis snd_conv)
qed

lemma fetch_table [simp]: "table (snd (downloadToS3 env cfg w url key)) = table w"
  using fetch_effect [of env cfg w url key] by blast


lemma commit_rejected:
  assumes "(others env w ++ table w) vid = Some theirs"
    and "ddb_put_fault env w \<lparr>videoId = vid, title = t, s3Key = key,
           s3Bucket = BUCKET_NAME cfg, downloadedAt = now w\<rparr> = None"
  shows "commit env cfg w start vid t key =
     (Inl ConditionalCheckFailedException,
      (await env (emit (DdbPut (TABLE_NAME cfg)
         \<lparr>videoId = vid, title = t, s3Key = key, s3Bucket = BUCKET_NAME cfg,
          downloadedAt = now w\<rparr> (Some ConditionalCheckFailedException)) w))
        \<lparr>table := others env w ++ table w\<rparr>)"
  using assms by (simp add: commit_def ddb_put_def Let_def)

lemma process_video_fetched:
  assumes "downloadToS3 env cfg w (videoUrl_of vid) (s3Key_of t vid) = (Inr (), w1)"
  shows "process_video env cfg w vid (Some (JStr t)) =
           commit env cfg w1 (now w) vid t (s3Key_of t vid)"
  using assms by (simp add: process_video_def Let_def)


lemma try_block_lookup:
  assumes "JSON_parse env (body r) = Some b"
    and "get_prop b (js ''videoId'') = Some (JStr vid)" and "vid \<noteq> []"
    and "ddb_get env cfg w vid = (Inr None, w1)"
  shows "try_block env cfg w r =
     (case process_video env cfg w1 vid (get_prop b (js ''title'')) of
        (Inl err, w2) \<Rightarrow> (Inl (err, JStr vid), w2)
      | (Inr c, w2) \<Rightarrow> (Inr c, w2))"
  using assms(4) by (simp add: try_block_string_id [OF assms(1,2,3)])

lemma try_block_commit_rejected:
  assumes "JSON_parse env (body r) = Some b"
    and "get_prop b (js ''videoId'') = Some (JStr vid)" and "vid \<noteq> []"
    and "get_prop b (js ''title'') = Some (JStr t)"
    and "ddb_get env cfg w vid = (Inr None, w1)"
    and "downloadToS3 env cfg w1 (videoUrl_of vid) (s3Key_of t vid) = (Inr (), w2)"
    and "(others env w2 ++ table w2) vid = Some theirs"
    and "ddb_put_fault env w2 \<lparr>videoId = vid, title = t, s3Key = s3Key_of t vid,
           s3Bucket = BUCKET_NAME cfg, downloadedAt = now w2\<rparr> = None"
  shows "try_block env cfg w r =
     (Inl (ConditionalCheckFailedException, JStr vid),
      (await env (emit (DdbPut (TABLE_NAME cfg)
         \<lparr>videoId = vid, title = t, s3Key = s3Key_of t vid, s3Bucket = BUCKET_NAME cfg,
          downloadedAt = now w2\<rparr> (Some ConditionalCheckFailedException)) w2))
        \<lparr>table := others env w2 ++ table w2\<rparr>)"
  by (simp add: try_block_lookup [OF assms(1,2,3,5)] assms(4)
      process_video_fetched [OF assms(6)] commit_rejected [OF assms(7,8)])







section \<open>Failing attempts\<close>

lemma cleanup_unlink: "(if files w p \<noteq> None then unlink p w else w) = unlink p w"
proof (cases "files w p")
  case None
  then have "(files w)(p := None) = files w" by (simp add: fun_upd_idem)
  then show ?thesis by (simp add: unlink_def)
next
  case (Some a)
  then show ?thesis by simp
qed

lemma attemptDownload_alt:
  "attemptDownload env cfg w videoUrl key playerClient =
     (let w0 = ensureCookieFileIfConfigured env cfg w;
          tempFile = tempFile_at (now w0);
          (r, w2) =
            (case attempt_try env cfg w0 videoUrl key playerClient tempFile of
               (Inr u, w1) \<Rightarrow> (Inr u, w1)
             | (Inl err, w1) \<Rightarrow>
                 (Inl err, emit (VideoDownloadFailed videoUrl playerClient key err) w1))
      in (r, unlink tempFile w2))"
  by (simp only: attemptDownload_def cleanup_unlink)

lemma attempt_rejected:
  assumes "w0 = ensureCookieFileIfConfigured env cfg w" and "tf = tempFile_at (now w0)"
    and "args = yt_dlp_args w0 url client tf" and "ch = yt_dlp env w0 args"
  shows "(outcome ch = Closed (Some 0) \<and> files_after ch tf = Some st \<and> st_size st = 0 \<longrightarrow>
            attemptDownload env cfg w url key client =
              (Inl EmptyFile,
               rejected_attempt env w0 ch args tf (VideoDownloadFailed url client key EmptyFile)))
       \<and> (outcome ch = Closed code \<and> code \<noteq> Some 0 \<longrightarrow>
            attemptDownload env cfg w url key client =
              (Inl (ExitCode code),
               rejected_attempt env w0 ch args tf
                 (VideoDownloadFailed url client key (ExitCode code))))"
  using assms
  by (auto simp: attemptDownload_alt attempt_try_def spawn_yt_dlp_def rejected_attempt_def
      Let_def)

lemma rejected_attempt_effect:
  "files (rejected_attempt env w0 ch args tf banner) tf = None"
  "new_events w0 (rejected_attempt env w0 ch args tf banner)
     = Spawn args # map YtDlpLine (stderr_lines ch) @ [banner]"
  by (simp_all add: rejected_attempt_def new_events_def)

lemma failed_attempt_goes_on:
  assumes "attemptDownload env cfg w url key client = (Inl e, w')"
  shows "try_strategies env cfg w url key (client # rest) =
     (if client = js ''android_creator'' then (Inl e, emit (DownloadFailedWith client e) w')
      else try_strategies env cfg (emit (DownloadFailedWith client e) w') url key rest)"
  using assms by (simp add: strategy_step_def clientStrategies_def)

text \<open>
  C7. An attempt whose subprocess exits with code 0 and leaves an empty output file ends
  exactly like one whose subprocess exits with another code, but for the error it reports:
  the result is \<open>Inl EmptyFile\<close> (respectively \<open>Inl (ExitCode code)\<close>) and the world is
  \<open>rejected_attempt\<close> with the failure banner naming URL, player client, key and error. In
  that world the temporary file is gone and the attempt has added the spawn, the child's
  lines and the banner, so no upload. A failed attempt makes the loop warn with the
  client's name and go on to the next strategy, or hand the error on if it was the last.
\<close>

theorem empty_output_is_a_failed_attempt:
  assumes "w0 = ensureCookieFileIfConfigured env cfg w" and "tf = tempFile_at (now w0)"
    and "args = yt_dlp_args w0 url client tf" and "ch = yt_dlp env w0 args"
  shows "(outcome ch = Closed (Some 0) \<and> files_after ch tf = Some st \<and> st_size st = 0 \<longrightarrow>
            attemptDownload env cfg w url key client =
              (Inl EmptyFile,
               rejected_attempt env w0 ch args tf (VideoDownloadFailed url client key EmptyFile)))
       \<and> (outcome ch = Closed code \<and> code \<noteq> Some 0 \<longrightarrow>
            attemptDownload env cfg w url key client =
              (Inl (ExitCode code),
               rejected_attempt env w0 ch args tf
                 (VideoDownloadFailed url client key (ExitCode code))))
       \<and> files (rejected_attempt env w0 ch args tf banner) tf = None
       \<and> new_events w0 (rejected_attempt env w0 ch args tf banner)
            = Spawn args # map YtDlpLine (stderr_lines ch) @ [banner]
       \<and> (attemptDownload env cfg w url key client = (Inl e, w') \<longrightarrow>
            try_strategies env cfg w url key (client # rest) =
              (if client = js ''android_creator''
               then (Inl e, emit (DownloadFailedWith client e) w')
               else try_strategies env cfg (emit (DownloadFailedWith client e) w') url key rest))"
proof -
  note a = attempt_rejected [OF assms, where st = st and key = key and code = code]
  note b = rejected_attempt_effect [where env = env and ?w0.0 = w0 and ch = ch
      and args = args and tf = tf and banner = banner]
  have c: "attemptDownload env cfg w url key client = (Inl e, w') \<longrightarrow>
            try_strategies env cfg w url key (client # rest) =
              (if client = js ''android_creator''
               then (Inl e, emit (DownloadFailedWith client e) w')
               else try_strategies env cfg (emit (DownloadFailedWith client e) w') url key rest)"
    by (rule impI) (rule failed_attempt_goes_on)
  from a b c show ?thesis by (intro conjI) simp_all
qed






section \<open>The destination key\<close>

lemma key_safe_unat:
  "key_safe c \<longleftrightarrow> unat c \<in> set (map unat
     (js ''abcdefghijklmnopqrstuvwxyzABCDEFGHIJKLMNOPQRSTUVWXYZ0123456789 -_''))"
proof -
  have "inj (unat :: 16 word \<Rightarrow> nat)"
    by (rule injI) (simp add: word_unat_eq_iff)
  then show ?thesis
    unfolding key_safe_def set_map by (simp add: inj_image_mem_iff)
qed

lemma allowed_unat:
  "allowed c \<longleftrightarrow> (97 \<le> unat c \<and> unat c \<le> 122) \<or> (65 \<le> unat c \<and> unat c \<le> 90)
     \<or> (48 \<le> unat c \<and> unat c \<le> 57) \<or> unat c = 32 \<or> unat c = 45"
  unfolding allowed_def word_le_nat_alt word_unat_eq_iff [of c] by simp

lemma safe_alphabet:
  "set (map unat (js ''abcdefghijklmnopqrstuvwxyzABCDEFGHIJKLMNOPQRSTUVWXYZ0123456789 -_''))
     = {97..122} \<union> {65..90} \<union> {48..57} \<union> {32, 45, 95}"
proof -
  have "{97..122} \<union> {65..90} \<union> {48..57} \<union> {32, 45, 95::nat}
      = set ([97..<123] @ [65..<91] @ [48..<58] @ [32, 45, 95])"
    by (simp only: set_append set_upt) auto
  also have "\<dots> = set (map unat
     (js ''abcdefghijklmnopqrstuvwxyzABCDEFGHIJKLMNOPQRSTUVWXYZ0123456789 -_''))"
    by (simp add: js_def)
  finally show ?thesis by simp
qed

lemma allowed_key_safe: "allowed c \<Longrightarrow> key_safe c"
  unfolding key_safe_unat allowed_unat safe_alphabet by auto

lemma underscore_key_safe: "key_safe 0x5F"
  unfolding key_safe_unat safe_alphabet by simp

lemma kept_unat:
  "kept c \<longleftrightarrow> unat c \<in> set (map unat
     (js ''abcdefghijklmnopqrstuvwxyzABCDEFGHIJKLMNOPQRSTUVWXYZ0123456789 -''))"
proof -
  have "inj (unat :: 16 word \<Rightarrow> nat)"
    by (rule injI) (simp add: word_unat_eq_iff)
  then show ?thesis
    unfolding kept_def set_map by (simp add: inj_image_mem_iff)
qed

lemma kept_alphabet:
  "set (map unat (js ''abcdefghijklmnopqrstuvwxyzABCDEFGHIJKLMNOPQRSTUVWXYZ0123456789 -''))
     = {97..122} \<union> {65..90} \<union> {48..57} \<union> {32, 45}"
proof -
  have "{97..122} \<union> {65..90} \<union> {48..57} \<union> {32, 45::nat}
      = set ([97..<123] @ [65..<91] @ [48..<58] @ [32, 45])"
    by (simp only: set_append set_upt) auto
  also have "\<dots> = set (map unat
     (js ''abcdefghijklmnopqrstuvwxyzABCDEFGHIJKLMNOPQRSTUVWXYZ0123456789 -''))"
    by (simp add: js_def)
  finally show ?thesis by simp
qed

lemma allowed_kept: "allowed c \<longleftrightarrow> kept c"
  unfolding kept_unat allowed_unat kept_alphabet by auto

lemma safeTitle_length: "length (safeTitle t) = min 100 (length t)"
  by (simp add: safeTitle_def min.commute)

lemma safeTitle_nth:
  "i < length (safeTitle t) \<Longrightarrow> safeTitle t ! i = (if kept (t ! i) then t ! i else 0x5F)"
  by (simp add: safeTitle_def allowed_kept)

text \<open>
  C9. Whatever the title, the sanitized title is the title cut to its first 100 code units
  with every unit that is not a letter, digit, space or hyphen replaced by an underscore:
  its length is the smaller of 100 and the title's length, its \<open>i\<close>-th unit is the
  title's when that is kept and \<open>_\<close> (0x5F) otherwise, and so it holds only letters,
  digits, spaces, hyphens and underscores. The destination key is \<open>videos/\<close>, the
  sanitized title, \<open>_\<close>, the id, \<open>.mp4\<close>.
\<close>

theorem sanitized_title_safe_and_bounded:
  "list_all key_safe (safeTitle t)
   \<and> length (safeTitle t) = min 100 (length t)
   \<and> length (safeTitle t) \<le> 100
   \<and> (\<forall>i < length (safeTitle t). safeTitle t ! i = (if kept (t ! i) then t ! i else 0x5F))
   \<and> s3Key_of t vid = js ''videos/'' @ safeTitle t @ js ''_'' @ vid @ js ''.mp4''"
proof -
  have "list_all key_safe (map (\<lambda>c. if allowed c then c else 0x5F) t)"
    by (induction t) (simp_all add: allowed_key_safe underscore_key_safe)
  then have "list_all key_safe (safeTitle t)"
    unfolding safeTitle_def by (auto simp: list_all_iff dest: in_set_takeD)
  then show ?thesis
    using safeTitle_length [of t] safeTitle_nth [of _ t]
    by (simp add: s3Key_of_def)
qed

text \<open>A title of 150 slashes becomes 100 underscores.\<close>

theorem sanitized_title_safe_and_bounded_witness:
  "length long_title = 150 \<and> \<not> kept (long_title ! 0)
   \<and> length (safeTitle long_title) = 100
   \<and> (0::nat) < length (safeTitle long_title)
   \<and> safeTitle long_title ! 0 = 0x5F
   \<and> list_all key_safe (safeTitle long_title)"
proof -
  have l: "length long_title = 150" by (simp add: long_title_def)
  have k: "\<not> kept (long_title ! 0)"
    unfolding kept_unat kept_alphabet by (simp add: long_title_def)
  note t = sanitized_title_safe_and_bounded [of long_title "js ''abc''"]
  from t l have n: "length (safeTitle long_title) = 100" by simp
  then have p: "(0::nat) < length (safeTitle long_title)" by simp
  from t p have "safeTitle long_title ! 0 = (if kept (long_title ! 0) then long_title ! 0 else 0x5F)"
    by blast
  with k have "safeTitle long_title ! 0 = 0x5F" by simp
  with t l k n p show ?thesis by simp
qed

section \<open>Scenarios\<close>

lemma parse0_simps [simp]:
  "parse0 msg_full = Some parsed_full"
  "parse0 msg_no_title = Some parsed_no_title"
  "parse0 msg_no_id = Some parsed_no_id"
  by (simp_all add: parse0_def msg_full_def msg_no_title_def msg_no_id_def js_def)

lemma parsed_props [simp]:
  "get_prop parsed_full (js ''videoId'') = Some (JStr (js ''abc''))"
  "get_prop parsed_full (js ''title'') = Some (JStr (js ''My video''))"
  "get_prop parsed_no_title (js ''videoId'') = Some (JStr (js ''abc''))"
  "get_prop parsed_no_title (js ''title'') = None"
  "get_prop parsed_no_id (js ''videoId'') = None"
  by (simp_all add: parsed_full_def parsed_no_title_def parsed_no_id_def js_def)

lemma abc_nonempty [simp]: "js ''abc'' \<noteq> []"
  by (simp add: js_def)

lemma record_simps [simp]:
  "body record_full = msg_full" "messageId record_full = js ''m2''"
  "body record_no_title = msg_no_title" "messageId record_no_title = js ''m3''"
  "body record_no_id = msg_no_id" "messageId record_no_id = js ''m1''"
  by (simp_all add: record_full_def record_no_title_def record_no_id_def)

lemma world0_simps [simp]:
  "table world0 = Map.empty" "files world0 = Map.empty" "trace world0 = []" "now world0 = 1000"
  by (simp_all add: world0_def)


lemma metrics_down_simps [simp]:
  "JSON_parse (metrics_down env) = JSON_parse env"
  "elapsed (metrics_down env) = elapsed env"
  "yt_dlp (metrics_down env) = yt_dlp env"
  "get_object (metrics_down env) = get_object env"
  "upload_fault (metrics_down env) = upload_fault env"
  "ddb_get_fault (metrics_down env) = ddb_get_fault env"
  "ddb_put_fault (metrics_down env) = ddb_put_fault env"
  "others (metrics_down env) = others env"
  "metric_fault (metrics_down env) w n = Some (js ''ServiceUnavailable'')"
  by (simp_all add: metrics_down_def)


lemma scripted_lookup:
  "ddb_get (scripted script conc) cfg w vid =
     (Inr (table w vid), await (scripted script conc) (emit (DdbGet (TABLE_NAME cfg) (JStr vid)) w))"
  by (simp add: ddb_get_unfold)

lemma looked_up_simps [simp]:
  "table (looked_up (scripted script conc)) = Map.empty"
  "ddb_get (scripted script conc) cfg0 world0 (js ''abc'')
     = (Inr None, looked_up (scripted script conc))"
  by (simp_all add: looked_up_def scripted_lookup)

lemma all_work_fetch:
  "fst (downloadToS3 (scripted all_work conc) cfg w url key) = Inr ()"
proof -
  have "fst (strategy_step (scripted all_work conc) cfg w url key (js ''ios'')) = Inr ()"
    by (rule scripted_step_ok [where script = all_work and n = 1024])
      (simp_all add: all_work_def)
  then obtain w1 where
    "strategy_step (scripted all_work conc) cfg w url key (js ''ios'') = (Inr (), w1)"
    by (cases "strategy_step (scripted all_work conc) cfg w url key (js ''ios'')") auto
  then show ?thesis
    by (simp add: downloadToS3_unfold)
qed

lemma fetched_table [simp]: "table (fetched env) = table (looked_up env)"
  by (simp add: fetched_def)

lemma fetched_simps [simp]:
  "downloadToS3 (scripted all_work conc) cfg0 (looked_up (scripted all_work conc))
      (videoUrl_of (js ''abc'')) (s3Key_of (js ''My video'') (js ''abc''))
     = (Inr (), fetched (scripted all_work conc))"
  using all_work_fetch [of conc cfg0 "looked_up (scripted all_work conc)"
      "videoUrl_of (js ''abc'')" "s3Key_of (js ''My video'') (js ''abc'')"]
  by (simp add: fetched_def prod_eq_iff)

text \<open>
  C1 (as amended). A message with a string id and a string title, no record found by the
  lookup, a fetch that succeeds, and a \<open>PutCommand\<close> that the table rejects because a
  record for the id is there at commit time: the rejection goes to the same \<open>catch\<close> block
  as every other error. After the fetch the turn adds the rejected \<open>PutCommand\<close> and the
  \<open>DownloadFailures\<close> metric call, and after them at most the \<open>DownloadError\<close> line
  (so neither \<open>VideosDownloaded\<close> nor \<open>DownloadSuccess\<close>); the record that was there
  stays. When the metric call is accepted, the turn ends normally with \<open>DownloadError\<close>
  carrying \<open>ConditionalCheckFailedException\<close> logged, and the loop goes on with the rest
  of the batch.
\<close>

theorem commit_race_is_counted_as_failure:
  assumes "JSON_parse env (body r) = Some b"
    and "get_prop b (js ''videoId'') = Some (JStr vid)" and "vid \<noteq> []"
    and "get_prop b (js ''title'') = Some (JStr t)"
    and "ddb_get env cfg w vid = (Inr None, w1)"
    and "downloadToS3 env cfg w1 (videoUrl_of vid) (s3Key_of t vid) = (Inr (), w2)"
    and "(others env w2 ++ table w2) vid = Some theirs"
    and "ddb_put_fault env w2 \<lparr>videoId = vid, title = t, s3Key = s3Key_of t vid,
           s3Bucket = BUCKET_NAME cfg, downloadedAt = now w2\<rparr> = None"
  shows "table (snd (iteration env cfg w r)) vid = Some theirs
     \<and> (new_events w2 (snd (iteration env cfg w r)) =
           [DdbPut (TABLE_NAME cfg)
              \<lparr>videoId = vid, title = t, s3Key = s3Key_of t vid,
               s3Bucket = BUCKET_NAME cfg, downloadedAt = now w2\<rparr>
              (Some ConditionalCheckFailedException),
            PutMetricData ''DownloadFailures'' 1 Count]
        \<or> new_events w2 (snd (iteration env cfg w r)) =
           [DdbPut (TABLE_NAME cfg)
              \<lparr>videoId = vid, title = t, s3Key = s3Key_of t vid,
               s3Bucket = BUCKET_NAME cfg, downloadedAt = now w2\<rparr>
              (Some ConditionalCheckFailedException),
            PutMetricData ''DownloadFailures'' 1 Count,
            DownloadError (JStr vid) (messageId r) (body r) ConditionalCheckFailedException])
     \<and> (metric_fault env
           ((await env (emit (DdbPut (TABLE_NAME cfg)
               \<lparr>videoId = vid, title = t, s3Key = s3Key_of t vid,
                s3Bucket = BUCKET_NAME cfg, downloadedAt = now w2\<rparr>
               (Some ConditionalCheckFailedException)) w2))
             \<lparr>table := others env w2 ++ table w2\<rparr>)
           ''DownloadFailures'' = None \<longrightarrow>
          iteration env cfg w r = (Inr Normal, snd (iteration env cfg w r))
          \<and> new_events w2 (snd (iteration env cfg w r)) =
              [DdbPut (TABLE_NAME cfg)
                 \<lparr>videoId = vid, title = t, s3Key = s3Key_of t vid,
                  s3Bucket = BUCKET_NAME cfg, downloadedAt = now w2\<rparr>
                 (Some ConditionalCheckFailedException),
               PutMetricData ''DownloadFailures'' 1 Count,
               DownloadError (JStr vid) (messageId r) (body r) ConditionalCheckFailedException]
          \<and> for_records env cfg w (r # rest) =
              for_records env cfg (snd (iteration env cfg w r)) rest)"
proof -
  let ?it = "\<lparr>videoId = vid, title = t, s3Key = s3Key_of t vid,
             s3Bucket = BUCKET_NAME cfg, downloadedAt = now w2\<rparr>"
  let ?w3 = "(await env (emit (DdbPut (TABLE_NAME cfg) ?it
      (Some ConditionalCheckFailedException)) w2))\<lparr>table := others env w2 ++ table w2\<rparr>"
  have tb: "try_block env cfg w r = (Inl (ConditionalCheckFailedException, JStr vid), ?w3)"
    by (rule try_block_commit_rejected [OF assms(1-8)])
  note i = iteration_catch [OF tb]
  show ?thesis
  proof (cases "metric_fault env ?w3 ''DownloadFailures''")
    case None
    with i assms(3) have "iteration env cfg w r =
      (Inr Normal, emit (DownloadError (JStr vid) (messageId r) (body r)
          ConditionalCheckFailedException)
        (await env (emit (PutMetricData ''DownloadFailures'' 1 Count) ?w3)))"
      by simp
    with None assms(7) show ?thesis
      by (simp add: new_events_def)
  next
    case (Some n)
    with i have "iteration env cfg w r =
      (Inl (ServiceError n), await env (emit (PutMetricData ''DownloadFailures'' 1 Count) ?w3))"
      by simp
    with Some assms(7) show ?thesis
      by (simp add: new_events_def)
  qed
qed

lemma race_facts:
  "JSON_parse race_env (body record_full) = Some parsed_full"
  "ddb_get race_env cfg0 world0 (js ''abc'') = (Inr None, looked_up race_env)"
  "downloadToS3 race_env cfg0 (looked_up race_env) (videoUrl_of (js ''abc''))
      (s3Key_of (js ''My video'') (js ''abc'')) = (Inr (), fetched race_env)"
  "(others race_env (fetched race_env) ++ table (fetched race_env)) (js ''abc'') = Some their_item"
  "ddb_put_fault race_env (fetched race_env) \<lparr>videoId = js ''abc'', title = js ''My video'',
      s3Key = s3Key_of (js ''My video'') (js ''abc''),
      s3Bucket = BUCKET_NAME cfg0, downloadedAt = now (fetched race_env)\<rparr> = None"
  "\<forall>w'. metric_fault race_env w' ''DownloadFailures'' = None"
  by (simp_all add: race_env_def)

theorem commit_race_is_counted_as_failure_witness:
  "ddb_get race_env cfg0 world0 (js ''abc'') = (Inr None, looked_up race_env)
   \<and> downloadToS3 race_env cfg0 (looked_up race_env) (videoUrl_of (js ''abc''))
        (s3Key_of (js ''My video'') (js ''abc'')) = (Inr (), fetched race_env)
   \<and> (others race_env (fetched race_env) ++ table (fetched race_env)) (js ''abc'')
        = Some their_item
   \<and> fst (iteration race_env cfg0 world0 record_full) = Inr Normal
   \<and> new_events (fetched race_env) (snd (iteration race_env cfg0 world0 record_full)) =
        [DdbPut (TABLE_NAME cfg0) (our_item race_env) (Some ConditionalCheckFailedException),
         PutMetricData ''DownloadFailures'' 1 Count,
         DownloadError (JStr (js ''abc'')) (js ''m2'') msg_full ConditionalCheckFailedException]
   \<and> table (snd (iteration race_env cfg0 world0 record_full)) (js ''abc'') = Some their_item"
proof -
  let ?I = "iteration race_env cfg0 world0 record_full"
  note t = commit_race_is_counted_as_failure [OF race_facts(1) parsed_props(1) abc_nonempty
      parsed_props(2) race_facts(2,3,4,5), where rest = "[]"]
  have m: "metric_fault race_env w ''DownloadFailures'' = None" for w
    using race_facts(6) by simp
  from t have tab: "table (snd ?I) (js ''abc'') = Some their_item"
    by (rule conjunct1)
  from t m have c: "?I = (Inr Normal, snd ?I)
      \<and> new_events (fetched race_env) (snd ?I) =
        [DdbPut (TABLE_NAME cfg0)
           \<lparr>videoId = js ''abc'', title = js ''My video'',
            s3Key = s3Key_of (js ''My video'') (js ''abc''),
            s3Bucket = BUCKET_NAME cfg0, downloadedAt = now (fetched race_env)\<rparr>
           (Some ConditionalCheckFailedException),
         PutMetricData ''DownloadFailures'' 1 Count,
         DownloadError (JStr (js ''abc'')) (messageId record_full) (body record_full)
           ConditionalCheckFailedException]
      \<and> for_records race_env cfg0 world0 (record_full # []) = for_records race_env cfg0 (snd ?I) []"
    by (simp del: for_records.simps)
  from c have f: "fst ?I = Inr Normal" by (cases ?I) simp
  from c tab f race_facts(2,3,4) show ?thesis
    by (simp add: our_item_def del: for_records.simps)
qed

text \<open>
  The race on \<open>abc\<close>: the fetch succeeds, the record of the other execution is in the
  table, and the turn ends with the failure metric and the error line.
\<close>

theorem commit_race_counterexample:
  "fst (downloadToS3 race_env cfg0 (looked_up race_env) (videoUrl_of (js ''abc''))
        (s3Key_of (js ''My video'') (js ''abc''))) = Inr ()
   \<and> (others race_env (fetched race_env) ++ table (fetched race_env)) (js ''abc'')
        = Some their_item
   \<and> new_events (fetched race_env) (snd (iteration race_env cfg0 world0 record_full)) =
        [DdbPut (TABLE_NAME cfg0) (our_item race_env) (Some ConditionalCheckFailedException),
         PutMetricData ''DownloadFailures'' 1 Count,
         DownloadError (JStr (js ''abc'')) (js ''m2'') msg_full ConditionalCheckFailedException]"
proof -
  note tb = try_block_commit_rejected [OF race_facts(1) parsed_props(1) abc_nonempty
      parsed_props(2) race_facts(2,3,4,5)]
  have m: "metric_fault race_env w ''DownloadFailures'' = None" for w
    using race_facts(6) by simp
  have "new_events (fetched race_env) (snd (iteration race_env cfg0 world0 record_full)) =
        [DdbPut (TABLE_NAME cfg0) (our_item race_env) (Some ConditionalCheckFailedException),
         PutMetricData ''DownloadFailures'' 1 Count,
         DownloadError (JStr (js ''abc'')) (js ''m2'') msg_full ConditionalCheckFailedException]"
    by (simp add: iteration_def tb recordMetric_ok [OF m] our_item_def)
  then show ?thesis
    using race_facts(3,4) by simp
qed

text \<open>
  C2. A batch of two messages, the first without \<open>videoId\<close>, the second complete: the
  handler logs \<open>InvalidMessage\<close> for the first and returns. The second message is never
  looked up or fetched, and \<open>BatchComplete\<close> is never logged.
\<close>

theorem invalid_message_ends_the_batch:
  "handler (scripted all_work Map.empty) cfg0 world0 \<lparr>Records = [record_no_id, record_full]\<rparr>
     = (Inr (), world0\<lparr>trace := [BatchStart 2, InvalidMessage (js ''m1'') msg_no_id]\<rparr>)"
proof -
  have "handler (scripted all_work Map.empty) cfg0 world0
      \<lparr>Records = [record_no_id, record_full]\<rparr>
    = for_records (scripted all_work Map.empty) cfg0 (emit (BatchStart 2) world0)
      (record_no_id # [record_full])"
    by (simp add: handler_def numeral_2_eq_2 del: for_records.simps)
  also have "\<dots> = (Inr (), emit (InvalidMessage (messageId record_no_id) (body record_no_id))
        (emit (BatchStart 2) world0))"
    by (rule invalid_message_returns [where b = parsed_no_id]) simp_all
  also have "\<dots> = (Inr (), world0\<lparr>trace := [BatchStart 2, InvalidMessage (js ''m1'') msg_no_id]\<rparr>)"
    by (simp add: emit_def world0_def)
  finally show ?thesis .
qed












theorem empty_output_is_a_failed_attempt_witness:
  "outcome (ios_child (scripted empty_output Map.empty)) = Closed (Some 0)
   \<and> files_after (ios_child (scripted empty_output Map.empty))
        (ios_temp (scripted empty_output Map.empty))
      = Some \<lparr>st_size = 0,
              st_mtimeMs = of_nat (now (checked (scripted empty_output Map.empty))),
              st_mode = 420\<rparr>
   \<and> attemptDownload (scripted empty_output Map.empty) cfg0 world0 (videoUrl_of (js ''abc''))
        (s3Key_of (js ''My video'') (js ''abc'')) (js ''ios'')
      = (Inl EmptyFile,
         rejected_attempt (scripted empty_output Map.empty)
           (checked (scripted empty_output Map.empty))
           (ios_child (scripted empty_output Map.empty))
           (ios_args (scripted empty_output Map.empty))
           (ios_temp (scripted empty_output Map.empty))
           (VideoDownloadFailed (videoUrl_of (js ''abc'')) (js ''ios'')
              (s3Key_of (js ''My video'') (js ''abc'')) EmptyFile))
   \<and> files (snd (attemptDownload (scripted empty_output Map.empty) cfg0 world0
        (videoUrl_of (js ''abc'')) (s3Key_of (js ''My video'') (js ''abc'')) (js ''ios'')))
        (ios_temp (scripted empty_output Map.empty)) = None
   \<and> filter is_upload (new_events (checked (scripted empty_output Map.empty))
        (snd (attemptDownload (scripted empty_output Map.empty) cfg0 world0
        (videoUrl_of (js ''abc'')) (s3Key_of (js ''My video'') (js ''abc'')) (js ''ios'')))) = []
   \<and> try_strategies (scripted empty_output Map.empty) cfg0 world0 (videoUrl_of (js ''abc''))
        (s3Key_of (js ''My video'') (js ''abc'')) [js ''ios'', js ''ios,web'']
      = try_strategies (scripted empty_output Map.empty) cfg0
          (emit (DownloadFailedWith (js ''ios'') EmptyFile)
            (snd (attemptDownload (scripted empty_output Map.empty) cfg0 world0
              (videoUrl_of (js ''abc'')) (s3Key_of (js ''My video'') (js ''abc'')) (js ''ios''))))
          (videoUrl_of (js ''abc'')) (s3Key_of (js ''My video'') (js ''abc'')) [js ''ios,web'']"
proof -
  let ?E = "scripted empty_output Map.empty"
  let ?url = "videoUrl_of (js ''abc'')"
  let ?key = "s3Key_of (js ''My video'') (js ''abc'')"
  let ?st = "\<lparr>st_size = 0, st_mtimeMs = of_nat (now (checked ?E)), st_mode = 420\<rparr>"
  let ?banner = "VideoDownloadFailed ?url (js ''ios'') ?key EmptyFile"
  have a: "checked ?E = ensureCookieFileIfConfigured ?E cfg0 world0"
    "ios_temp ?E = tempFile_at (now (checked ?E))"
    "ios_args ?E = yt_dlp_args (checked ?E) ?url (js ''ios'') (ios_temp ?E)"
    "ios_child ?E = yt_dlp ?E (checked ?E) (ios_args ?E)"
    by (simp_all add: checked_def ios_temp_def ios_args_def ios_child_def)
  have o: "outcome (ios_child ?E) = Closed (Some 0)"
    "files_after (ios_child ?E) (ios_temp ?E) = Some ?st" "st_size ?st = 0"
    by (simp_all add: a(3,4) scripted_child empty_output_def)
  note t = empty_output_is_a_failed_attempt [OF a, where st = ?st and key = ?key
      and banner = ?banner and e = EmptyFile
      and w' = "rejected_attempt ?E (checked ?E) (ios_child ?E) (ios_args ?E) (ios_temp ?E) ?banner"
      and rest = "[js ''ios,web'']"]
  from t o have r: "attemptDownload ?E cfg0 world0 ?url ?key (js ''ios'')
      = (Inl EmptyFile,
         rejected_attempt ?E (checked ?E) (ios_child ?E) (ios_args ?E) (ios_temp ?E) ?banner)"
    by blast
  from t have f: "files (rejected_attempt ?E (checked ?E) (ios_child ?E) (ios_args ?E)
        (ios_temp ?E) ?banner) (ios_temp ?E) = None"
    "new_events (checked ?E) (rejected_attempt ?E (checked ?E) (ios_child ?E) (ios_args ?E)
        (ios_temp ?E) ?banner)
      = Spawn (ios_args ?E) # map YtDlpLine (stderr_lines (ios_child ?E)) @ [?banner]"
    by blast+
  from t r have g: "try_strategies ?E cfg0 world0 ?url ?key (js ''ios'' # [js ''ios,web''])
      = (if js ''ios'' = js ''android_creator''
         then (Inl EmptyFile, emit (DownloadFailedWith (js ''ios'') EmptyFile)
           (rejected_attempt ?E (checked ?E) (ios_child ?E) (ios_args ?E) (ios_temp ?E) ?banner))
         else try_strategies ?E cfg0 (emit (DownloadFailedWith (js ''ios'') EmptyFile)
           (rejected_attempt ?E (checked ?E) (ios_child ?E) (ios_args ?E) (ios_temp ?E) ?banner))
           ?url ?key [js ''ios,web''])"
    by blast
  have n: "js ''ios'' \<noteq> js ''android_creator''" by (simp add: js_def)
  from o r f g n show ?thesis
    by (simp del: try_strategies.simps)
qed

end
